theory Spec2Isabelle
  imports Main
begin

section \<open>Go values used by the Azure Repos backend\<close>

text \<open>
  A Go \<^verbatim>\<open>error\<close> is an interface value; \<^verbatim>\<open>nil\<close> is \<open>None\<close> of \<open>error option\<close>.
  Two dynamic kinds of error occur in \<^verbatim>\<open>vcsclient/azurerepos.go\<close>:
  \<^item> \<open>errorString m\<close>: the value built in this file by \<^verbatim>\<open>errors.New(m)\<close> or by
    \<^verbatim>\<open>fmt.Errorf\<close> without a \<^verbatim>\<open>%w\<close> verb, carrying only its message;
  \<^item> \<open>Native m\<close>: an error value of a type that belongs to a collaborator (the Azure
    DevOps SDK, \<^verbatim>\<open>net/http\<close>, \<^verbatim>\<open>os\<close>, \<^verbatim>\<open>io\<close>, \<^verbatim>\<open>vcsutils\<close>), identified by its message.
\<close>

datatype error = errorString string | Native string

text \<open>
  A call either returns its results or panics (a nil pointer dereference is a run-time
  panic in Go). Several results are a tuple, the error last, as in the source.
\<close>

datatype 'a outcome = Panic | Return 'a

text \<open>
  \<^verbatim>\<open>%d\<close> of \<^verbatim>\<open>fmt\<close>: the decimal digits of an integer, with a minus sign when negative.
  The integers of this file (\<^verbatim>\<open>int\<close>, \<^verbatim>\<open>int64\<close>) are only copied, compared and printed,
  never used in arithmetic, so they are modelled by \<open>int\<close>.
\<close>

fun digits :: "nat \<Rightarrow> string" where
  "digits n =
     (if n < 10 then [''0123456789'' ! n]
      else digits (n div 10) @ [''0123456789'' ! (n mod 10)])"

declare digits.simps [simp del]

definition itoa :: "int \<Rightarrow> string" where
  "itoa i = (if i < 0 then CHR ''-'' # digits (nat (- i)) else digits (nat i))"

text \<open>
  The number a string of decimal digits denotes, to say below that \<open>digits\<close> writes its
  argument in decimal notation.
\<close>

definition decimal_value :: "string \<Rightarrow> nat" where
  "decimal_value ds = foldl (\<lambda>value d. 10 * value + (of_char d - 48)) 0 ds"

text \<open>
  \<^verbatim>\<open>time.Time\<close>, as far as this file looks at it: the seconds since the epoch, which
  \<^verbatim>\<open>Unix()\<close> returns, and the nanoseconds within the second. \<^verbatim>\<open>azuredevops.Time\<close> is a
  struct with the single field \<^verbatim>\<open>Time\<close>.
\<close>

datatype time_Time = time_Time (Unix: int) (Nanosecond: nat)

record azuredevops_Time =
  Time :: time_Time

section \<open>Types of the Azure DevOps SDK\<close>

text \<open>
  The structs of the SDK, with the fields this file reads or writes. Every field is a
  pointer in the SDK (the source dereferences them with \<^verbatim>\<open>*\<close> or hands them to
  \<^verbatim>\<open>vcsutils.DefaultIfNotNil\<close>), so every field is an \<open>option\<close>, \<open>None\<close> being \<^verbatim>\<open>nil\<close>.
  A slice is a list; the nil slice and the empty slice are both \<open>[]\<close> (they differ in Go
  only under comparison with \<^verbatim>\<open>nil\<close>, which this file never does on a slice).
\<close>

record GitRepository =
  Name :: "string option"

record GitBranchStats =
  Name :: "string option"

record IdentityRef =
  DisplayName :: "string option"

record Comment =
  Author :: "IdentityRef option"
  Id :: "int option"
  Content :: "string option"

record GitPullRequestCommentThread =
  Id :: "int option"
  Comments :: "Comment list option"
  PublishedDate :: "azuredevops_Time option"
  Status :: "string option"

record GitPullRequest =
  PullRequestId :: "int option"
  SourceRefName :: "string option"
  TargetRefName :: "string option"
  Title :: "string option"
  Description :: "string option"

record GitUserDate =
  Name :: "string option"
  Date :: "azuredevops_Time option"

record GitCommitRef =
  CommitId :: "string option"
  Author :: "GitUserDate option"
  Committer :: "GitUserDate option"
  Url :: "string option"
  Comment :: "string option"
  Parents :: "string list option"

text \<open>
  The string constants of the SDK that the source passes:
  \<^verbatim>\<open>git.CommentThreadStatusValues.Active\<close>, \<^verbatim>\<open>git.PullRequestStatusValues.Active\<close> and
  \<^verbatim>\<open>git.GitVersionTypeValues.Branch\<close>.
\<close>

definition CommentThreadStatusValues_Active :: string where
  "CommentThreadStatusValues_Active = ''active''"

definition PullRequestStatusValues_Active :: string where
  "PullRequestStatusValues_Active = ''active''"

definition GitVersionTypeValues_Branch :: string where
  "GitVersionTypeValues_Branch = ''branch''"

text \<open>
  The SDK itself is a collaborator: a record of the calls the source makes, each a
  function of the arguments the source puts into the \<^verbatim>\<open>...Args\<close> struct (in the order given
  below) and of the provider's state \<open>'s\<close>. A call returns what the Go method returns, a
  pointer and an error; the two calls that write (\<^verbatim>\<open>CreatePullRequest\<close>, \<^verbatim>\<open>CreateThread\<close>)
  also return the provider's next state. The \<^verbatim>\<open>context.Context\<close> has no counterpart:
  cancellation shows as an error of the call.
  \<^item> \<open>git_NewClient connection\<close>: the error of \<^verbatim>\<open>git.NewClient(ctx, connection)\<close>;
  \<^item> \<open>GetResourceAreas connection baseUrl\<close>: the error of \<^verbatim>\<open>GetResourceAreas\<close> on
    \<^verbatim>\<open>azuredevops.NewClient(connection, baseUrl)\<close> (the areas are discarded by the source);
  \<^item> \<open>git_GetRepositories Project\<close>;
  \<^item> \<open>git_GetBranches Project RepositoryId\<close>;
  \<^item> \<open>git_CreatePullRequest GitPullRequestToCreate RepositoryId Project\<close>;
  \<^item> \<open>git_CreateThread CommentThread RepositoryId PullRequestId Project\<close>;
  \<^item> \<open>git_GetThreads RepositoryId PullRequestId Project\<close>;
  \<^item> \<open>git_GetPullRequests RepositoryId Project SearchCriteria.Status\<close>;
  \<^item> \<open>git_GetCommits RepositoryId Project ItemVersion.Version ItemVersion.VersionType\<close>.
\<close>

record Connection =
  BaseUrl :: string
  AuthorizationString :: string

record 's azure_sdk =
  git_NewClient :: "Connection \<Rightarrow> 's \<Rightarrow> error option"
  GetResourceAreas :: "Connection \<Rightarrow> string \<Rightarrow> 's \<Rightarrow> error option"
  git_GetRepositories :: "string \<Rightarrow> 's \<Rightarrow> GitRepository list option \<times> error option"
  git_GetBranches :: "string \<Rightarrow> string \<Rightarrow> 's \<Rightarrow> GitBranchStats list option \<times> error option"
  git_CreatePullRequest ::
    "GitPullRequest \<Rightarrow> string \<Rightarrow> string \<Rightarrow> 's \<Rightarrow> (GitPullRequest option \<times> error option) \<times> 's"
  git_CreateThread ::
    "GitPullRequestCommentThread \<Rightarrow> string \<Rightarrow> int \<Rightarrow> string \<Rightarrow> 's
      \<Rightarrow> (GitPullRequestCommentThread option \<times> error option) \<times> 's"
  git_GetThreads ::
    "string \<Rightarrow> int \<Rightarrow> string \<Rightarrow> 's \<Rightarrow> GitPullRequestCommentThread list option \<times> error option"
  git_GetPullRequests ::
    "string \<Rightarrow> string \<Rightarrow> string \<Rightarrow> 's \<Rightarrow> GitPullRequest list option \<times> error option"
  git_GetCommits ::
    "string \<Rightarrow> string \<Rightarrow> string \<Rightarrow> string \<Rightarrow> 's \<Rightarrow> GitCommitRef list option \<times> error option"

section \<open>Common result types of package vcsclient\<close>

text \<open>
  The result types are declared elsewhere in the package; their fields are the ones the
  composite literals of this file set, which are also the fields section 3 of the
  specification lists.
\<close>

record CommitInfo =
  Hash :: string
  AuthorName :: string
  CommitterName :: string
  Url :: string
  Timestamp :: int
  Message :: string
  ParentHashes :: "string list"

record BranchInfo =
  Name :: string
  Repository :: string

record PullRequestInfo =
  ID :: int
  Source :: BranchInfo
  Target :: BranchInfo

record CommentInfo =
  ID :: int
  Content :: string
  Created :: time_Time

text \<open>
  Modelled from the spec: \<^verbatim>\<open>RepositoryInfo\<close> is declared outside this file, which only
  builds its zero value \<^verbatim>\<open>RepositoryInfo{}\<close>. Section 3 of the specification describes it as
  identifying a repository by name, project/owner and visibility/clone information.
\<close>

record RepositoryInfo =
  RepositoryName :: string
  Owner :: string
  Visibility :: string
  CloneInfo :: string

text \<open>The zero values \<^verbatim>\<open>CommitInfo{}\<close> and \<^verbatim>\<open>RepositoryInfo{}\<close>.\<close>

definition CommitInfo_zero :: CommitInfo where
  "CommitInfo_zero =
     \<lparr>Hash = [], AuthorName = [], CommitterName = [], CommitInfo.Url = [], Timestamp = 0,
      Message = [], ParentHashes = []\<rparr>"

definition RepositoryInfo_zero :: RepositoryInfo where
  "RepositoryInfo_zero = \<lparr>RepositoryName = [], Owner = [], Visibility = [], CloneInfo = []\<rparr>"

text \<open>
  Modelled from the spec: \<^verbatim>\<open>vcsutils.DefaultIfNotNil\<close> is declared outside this file.
  Section 3 of the specification requires that fields absent from a provider are
  zero-valued, never fabricated: a nil pointer gives the zero value of the pointee and any
  other pointer gives the value it points to. The source uses it at \<^verbatim>\<open>string\<close> and at
  \<^verbatim>\<open>[]string\<close>, whose zero values are both the empty list.
\<close>

definition DefaultIfNotNil :: "'a list option \<Rightarrow> 'a list" where
  "DefaultIfNotNil val = (case val of None \<Rightarrow> [] | Some v \<Rightarrow> v)"

section \<open>The client\<close>

text \<open>
  \<^verbatim>\<open>VcsInfo\<close> is the connection descriptor (declared elsewhere in the package; the fields
  this file reads). The \<^verbatim>\<open>logger\<close> field of the client is left out: \<^verbatim>\<open>Debug\<close> and \<^verbatim>\<open>Info\<close>
  return nothing, so a log line changes no result, error or working directory.
\<close>

record VcsInfo =
  APIEndpoint :: string
  Token :: string
  Project :: string

record AzureReposClient =
  vcsInfo :: VcsInfo
  connectionDetails :: "Connection option"

text \<open>
  \<^verbatim>\<open>buildAzureReposClient\<close> returns a \<^verbatim>\<open>git.Client\<close> and an error. The client it returns
  is the SDK record itself, so only the error is a result here.
\<close>

definition buildAzureReposClient :: "'s azure_sdk \<Rightarrow> AzureReposClient \<Rightarrow> 's \<Rightarrow> error option" where
  "buildAzureReposClient sdk client s =
     (case connectionDetails client of
        None \<Rightarrow> Some (errorString (''connection details wasn'' @ [CHR 0x27] @ ''t initialized''))
      | Some connection \<Rightarrow> git_NewClient sdk connection s)"

subsection \<open>TestConnection\<close>

text \<open>\<^verbatim>\<open>client.connectionDetails.BaseUrl\<close> dereferences the connection: nil panics.\<close>

definition TestConnection :: "'s azure_sdk \<Rightarrow> AzureReposClient \<Rightarrow> 's \<Rightarrow> error option outcome" where
  "TestConnection sdk client s =
     (case connectionDetails client of
        None \<Rightarrow> Panic
      | Some connection \<Rightarrow> Return (GetResourceAreas sdk connection (BaseUrl connection) s))"

subsection \<open>ListRepositories\<close>

text \<open>
  The loop \<^verbatim>\<open>for _, repo := range *resp\<close>: each step appends \<^verbatim>\<open>*repo.Name\<close> to the entry of
  the project. Reading a missing key of a Go map gives the nil slice. The Go map is a map
  \<open>string \<rightharpoonup> string list\<close>; the nil map of the first \<^verbatim>\<open>return\<close> and the empty map of
  \<^verbatim>\<open>make\<close> are both \<open>Map.empty\<close>.
\<close>

fun ListRepositories_loop ::
  "string \<Rightarrow> GitRepository list \<Rightarrow> (string \<rightharpoonup> string list) \<Rightarrow> (string \<rightharpoonup> string list) outcome" where
  "ListRepositories_loop project [] repositories = Return repositories"
| "ListRepositories_loop project (repo # rest) repositories =
     (case GitRepository.Name repo of
        None \<Rightarrow> Panic
      | Some name \<Rightarrow>
          ListRepositories_loop project rest
            (repositories(project \<mapsto>
               (case repositories project of None \<Rightarrow> [] | Some names \<Rightarrow> names) @ [name])))"

definition ListRepositories ::
  "'s azure_sdk \<Rightarrow> AzureReposClient \<Rightarrow> 's \<Rightarrow> ((string \<rightharpoonup> string list) \<times> error option) outcome" where
  "ListRepositories sdk client s =
     (case buildAzureReposClient sdk client s of
        Some err \<Rightarrow> Return (Map.empty, Some err)
      | None \<Rightarrow>
          (case git_GetRepositories sdk (Project (vcsInfo client)) s of
             (resp, Some err) \<Rightarrow> Return (Map.empty, Some err)
           | (None, None) \<Rightarrow> Panic
           | (Some resp, None) \<Rightarrow>
               (case ListRepositories_loop (Project (vcsInfo client)) resp Map.empty of
                  Panic \<Rightarrow> Panic
                | Return repositories \<Rightarrow> Return (repositories, None))))"

subsection \<open>ListBranches\<close>

fun ListBranches_loop :: "GitBranchStats list \<Rightarrow> string list \<Rightarrow> string list outcome" where
  "ListBranches_loop [] branches = Return branches"
| "ListBranches_loop (branch # rest) branches =
     (case GitBranchStats.Name branch of
        None \<Rightarrow> Panic
      | Some name \<Rightarrow> ListBranches_loop rest (branches @ [name]))"

definition ListBranches ::
  "'s azure_sdk \<Rightarrow> AzureReposClient \<Rightarrow> string \<Rightarrow> string \<Rightarrow> 's \<Rightarrow> (string list \<times> error option) outcome" where
  "ListBranches sdk client owner repository s =
     (case buildAzureReposClient sdk client s of
        Some err \<Rightarrow> Return ([], Some err)
      | None \<Rightarrow>
          (case git_GetBranches sdk (Project (vcsInfo client)) repository s of
             (gitBranchStats, Some err) \<Rightarrow> Return ([], Some err)
           | (None, None) \<Rightarrow> Panic
           | (Some gitBranchStats, None) \<Rightarrow>
               (case ListBranches_loop gitBranchStats [] of
                  Panic \<Rightarrow> Panic
                | Return branches \<Rightarrow> Return (branches, None))))"

subsection \<open>CreatePullRequest and AddPullRequestComment\<close>

text \<open>
  \<^verbatim>\<open>vcsutils.AddBranchPrefix\<close> is declared outside this file and is a parameter of
  \<open>CreatePullRequest\<close>. Both operations write to the provider: they return the provider's
  next state beside the outcome. The pull request (or thread) the SDK returns is dropped.
  \<open>GitPullRequestToCreate\<close> and \<open>CommentThread\<close> are the composite literals of the two
  requests; the fields the source leaves out are nil.
\<close>

definition GitPullRequestToCreate ::
  "(string \<Rightarrow> string) \<Rightarrow> string \<Rightarrow> string \<Rightarrow> string \<Rightarrow> string \<Rightarrow> GitPullRequest" where
  "GitPullRequestToCreate AddBranchPrefix sourceBranch targetBranch title description =
     \<lparr>PullRequestId = None,
      SourceRefName = Some (AddBranchPrefix sourceBranch),
      TargetRefName = Some (AddBranchPrefix targetBranch),
      Title = Some title,
      Description = Some description\<rparr>"

definition CreatePullRequest ::
  "'s azure_sdk \<Rightarrow> (string \<Rightarrow> string) \<Rightarrow> AzureReposClient \<Rightarrow> string \<Rightarrow> string \<Rightarrow> string \<Rightarrow> string
     \<Rightarrow> string \<Rightarrow> string \<Rightarrow> 's \<Rightarrow> error option outcome \<times> 's" where
  "CreatePullRequest sdk AddBranchPrefix client owner repository sourceBranch targetBranch
       title description s =
     (case buildAzureReposClient sdk client s of
        Some err \<Rightarrow> (Return (Some err), s)
      | None \<Rightarrow>
          (case git_CreatePullRequest sdk
                  (GitPullRequestToCreate AddBranchPrefix sourceBranch targetBranch
                     title description)
                  repository (Project (vcsInfo client)) s of
             ((_, err), s') \<Rightarrow> (Return err, s')))"

definition CommentThread :: "string \<Rightarrow> GitPullRequestCommentThread" where
  "CommentThread content =
     \<lparr>GitPullRequestCommentThread.Id = None,
      Comments = Some [\<lparr>Comment.Author = None, Comment.Id = None,
                        Comment.Content = Some content\<rparr>],
      PublishedDate = None,
      Status = Some CommentThreadStatusValues_Active\<rparr>"

definition AddPullRequestComment ::
  "'s azure_sdk \<Rightarrow> AzureReposClient \<Rightarrow> string \<Rightarrow> string \<Rightarrow> string \<Rightarrow> int \<Rightarrow> 's
     \<Rightarrow> error option outcome \<times> 's" where
  "AddPullRequestComment sdk client owner repository content pullRequestID s =
     (case buildAzureReposClient sdk client s of
        Some err \<Rightarrow> (Return (Some err), s)
      | None \<Rightarrow>
          (case git_CreateThread sdk (CommentThread content)
                  repository pullRequestID (Project (vcsInfo client)) s of
             ((_, err), s') \<Rightarrow> (Return err, s')))"

subsection \<open>ListPullRequestComments\<close>

text \<open>
  One \<^verbatim>\<open>fmt.Sprintf("Author: %s, Id: %d, Content:%s\n", ...)\<close> per comment; each of
  \<^verbatim>\<open>comment.Author\<close>, \<^verbatim>\<open>DisplayName\<close>, \<^verbatim>\<open>comment.Id\<close> and \<^verbatim>\<open>comment.Content\<close> is dereferenced.
\<close>

definition comment_line :: "Comment \<Rightarrow> string outcome" where
  "comment_line comment =
     (case Comment.Author comment of
        None \<Rightarrow> Panic
      | Some author \<Rightarrow>
          (case DisplayName author of
             None \<Rightarrow> Panic
           | Some displayName \<Rightarrow>
               (case Comment.Id comment of
                  None \<Rightarrow> Panic
                | Some commentId \<Rightarrow>
                    (case Comment.Content comment of
                       None \<Rightarrow> Panic
                     | Some content \<Rightarrow>
                         Return (''Author: '' @ displayName @ '', Id: '' @ itoa commentId
                                 @ '', Content:'' @ content @ [CHR 0x0A])))))"

text \<open>
  The inner loop writes the lines to the \<^verbatim>\<open>strings.Builder\<close>, here the string built so
  far. \<^verbatim>\<open>WriteString\<close> of a \<^verbatim>\<open>strings.Builder\<close> always returns a nil error, so the
  \<^verbatim>\<open>return nil, err\<close> under it is never taken.
\<close>

fun commentsAggregator_loop :: "Comment list \<Rightarrow> string \<Rightarrow> string outcome" where
  "commentsAggregator_loop [] commentsAggregator = Return commentsAggregator"
| "commentsAggregator_loop (comment # rest) commentsAggregator =
     (case comment_line comment of
        Panic \<Rightarrow> Panic
      | Return line \<Rightarrow> commentsAggregator_loop rest (commentsAggregator @ line))"

text \<open>
  One step of the outer loop: \<^verbatim>\<open>*thread.Comments\<close>, then the composite literal with
  \<^verbatim>\<open>*thread.Id\<close> and \<^verbatim>\<open>thread.PublishedDate.Time\<close>.
\<close>

definition thread_CommentInfo :: "GitPullRequestCommentThread \<Rightarrow> CommentInfo outcome" where
  "thread_CommentInfo thread =
     (case Comments thread of
        None \<Rightarrow> Panic
      | Some comments \<Rightarrow>
          (case commentsAggregator_loop comments [] of
             Panic \<Rightarrow> Panic
           | Return aggregated \<Rightarrow>
               (case GitPullRequestCommentThread.Id thread of
                  None \<Rightarrow> Panic
                | Some threadId \<Rightarrow>
                    (case PublishedDate thread of
                       None \<Rightarrow> Panic
                     | Some publishedDate \<Rightarrow>
                         Return \<lparr>CommentInfo.ID = threadId, CommentInfo.Content = aggregated,
                                 Created = Time publishedDate\<rparr>))))"

fun ListPullRequestComments_loop ::
  "GitPullRequestCommentThread list \<Rightarrow> CommentInfo list \<Rightarrow> CommentInfo list outcome" where
  "ListPullRequestComments_loop [] commentInfo = Return commentInfo"
| "ListPullRequestComments_loop (thread # rest) commentInfo =
     (case thread_CommentInfo thread of
        Panic \<Rightarrow> Panic
      | Return info \<Rightarrow> ListPullRequestComments_loop rest (commentInfo @ [info]))"

definition ListPullRequestComments ::
  "'s azure_sdk \<Rightarrow> AzureReposClient \<Rightarrow> string \<Rightarrow> string \<Rightarrow> int \<Rightarrow> 's
     \<Rightarrow> (CommentInfo list \<times> error option) outcome" where
  "ListPullRequestComments sdk client owner repository pullRequestID s =
     (case buildAzureReposClient sdk client s of
        Some err \<Rightarrow> Return ([], Some err)
      | None \<Rightarrow>
          (case git_GetThreads sdk repository pullRequestID (Project (vcsInfo client)) s of
             (threads, Some err) \<Rightarrow> Return ([], Some err)
           | (None, None) \<Rightarrow> Panic
           | (Some threads, None) \<Rightarrow>
               (case ListPullRequestComments_loop threads [] of
                  Panic \<Rightarrow> Panic
                | Return commentInfo \<Rightarrow> Return (commentInfo, None))))"

subsection \<open>ListOpenPullRequests\<close>

definition pullRequest_PullRequestInfo :: "string \<Rightarrow> GitPullRequest \<Rightarrow> PullRequestInfo outcome" where
  "pullRequest_PullRequestInfo repository pullRequest =
     (case PullRequestId pullRequest of
        None \<Rightarrow> Panic
      | Some pullRequestId \<Rightarrow>
          Return \<lparr>PullRequestInfo.ID = pullRequestId,
                  Source = \<lparr>BranchInfo.Name = DefaultIfNotNil (SourceRefName pullRequest),
                            Repository = repository\<rparr>,
                  Target = \<lparr>BranchInfo.Name = DefaultIfNotNil (TargetRefName pullRequest),
                            Repository = repository\<rparr>\<rparr>)"

fun ListOpenPullRequests_loop ::
  "string \<Rightarrow> GitPullRequest list \<Rightarrow> PullRequestInfo list \<Rightarrow> PullRequestInfo list outcome" where
  "ListOpenPullRequests_loop repository [] pullRequestsInfo = Return pullRequestsInfo"
| "ListOpenPullRequests_loop repository (pullRequest # rest) pullRequestsInfo =
     (case pullRequest_PullRequestInfo repository pullRequest of
        Panic \<Rightarrow> Panic
      | Return info \<Rightarrow> ListOpenPullRequests_loop repository rest (pullRequestsInfo @ [info]))"

definition ListOpenPullRequests ::
  "'s azure_sdk \<Rightarrow> AzureReposClient \<Rightarrow> string \<Rightarrow> string \<Rightarrow> 's
     \<Rightarrow> (PullRequestInfo list \<times> error option) outcome" where
  "ListOpenPullRequests sdk client owner repository s =
     (case buildAzureReposClient sdk client s of
        Some err \<Rightarrow> Return ([], Some err)
      | None \<Rightarrow>
          (case git_GetPullRequests sdk repository (Project (vcsInfo client))
                  PullRequestStatusValues_Active s of
             (pullRequests, Some err) \<Rightarrow> Return ([], Some err)
           | (None, None) \<Rightarrow> Panic
           | (Some pullRequests, None) \<Rightarrow>
               (case ListOpenPullRequests_loop repository pullRequests [] of
                  Panic \<Rightarrow> Panic
                | Return pullRequestsInfo \<Rightarrow> Return (pullRequestsInfo, None))))"

subsection \<open>GetLatestCommit\<close>

text \<open>
  The composite literal for the first commit of the list. \<^verbatim>\<open>latestCommit.Author.Name\<close>
  dereferences \<^verbatim>\<open>Author\<close>, and \<^verbatim>\<open>latestCommit.Committer.Date.Time.Unix()\<close> dereferences
  \<^verbatim>\<open>Committer\<close> and \<^verbatim>\<open>Date\<close>.
\<close>

definition latestCommit_CommitInfo :: "GitCommitRef \<Rightarrow> CommitInfo outcome" where
  "latestCommit_CommitInfo latestCommit =
     (case GitCommitRef.Author latestCommit of
        None \<Rightarrow> Panic
      | Some author \<Rightarrow>
          (case Committer latestCommit of
             None \<Rightarrow> Panic
           | Some committer \<Rightarrow>
               (case Date committer of
                  None \<Rightarrow> Panic
                | Some date \<Rightarrow>
                    Return \<lparr>Hash = DefaultIfNotNil (CommitId latestCommit),
                            AuthorName = DefaultIfNotNil (GitUserDate.Name author),
                            CommitterName = DefaultIfNotNil (GitUserDate.Name committer),
                            CommitInfo.Url = DefaultIfNotNil (GitCommitRef.Url latestCommit),
                            Timestamp = Unix (Time date),
                            Message = DefaultIfNotNil (GitCommitRef.Comment latestCommit),
                            ParentHashes = DefaultIfNotNil (Parents latestCommit)\<rparr>)))"

definition GetLatestCommit ::
  "'s azure_sdk \<Rightarrow> AzureReposClient \<Rightarrow> string \<Rightarrow> string \<Rightarrow> string \<Rightarrow> 's
     \<Rightarrow> (CommitInfo \<times> error option) outcome" where
  "GetLatestCommit sdk client owner repository branch s =
     (case buildAzureReposClient sdk client s of
        Some err \<Rightarrow> Return (CommitInfo_zero, Some err)
      | None \<Rightarrow>
          (case git_GetCommits sdk repository (Project (vcsInfo client)) branch
                  GitVersionTypeValues_Branch s of
             (commits, Some err) \<Rightarrow> Return (CommitInfo_zero, Some err)
           | (None, None) \<Rightarrow> Panic
           | (Some [], None) \<Rightarrow> Return (CommitInfo_zero, None)
           | (Some (latestCommit # _), None) \<Rightarrow>
               (case latestCommit_CommitInfo latestCommit of
                  Panic \<Rightarrow> Panic
                | Return latestCommitInfo \<Rightarrow> Return (latestCommitInfo, None))))"

subsection \<open>Operations Azure Repos does not support\<close>

definition getUnsupportedInAzureError :: "string \<Rightarrow> error" where
  "getUnsupportedInAzureError functionName =
     errorString (functionName @ '' is currently not supported for Azure Repos'')"

text \<open>
  The twelve stubs. None reads its receiver or its arguments. The types \<^verbatim>\<open>Permission\<close>,
  \<^verbatim>\<open>LabelInfo\<close>, \<^verbatim>\<open>CommitStatus\<close> and \<^verbatim>\<open>vcsutils.WebhookEvent\<close> are declared outside this
  file and occur only as such arguments (and in the nil \<^verbatim>\<open>*LabelInfo\<close> of \<^verbatim>\<open>GetLabel\<close>), so
  they are type variables; the variadic \<^verbatim>\<open>webhookEvents\<close> is a list. The empty string
  \<^verbatim>\<open>""\<close> is the empty list.
\<close>

definition AddSshKeyToRepository ::
  "AzureReposClient \<Rightarrow> string \<Rightarrow> string \<Rightarrow> string \<Rightarrow> string \<Rightarrow> 'permission \<Rightarrow> error option outcome" where
  "AddSshKeyToRepository client owner repository keyName publicKey permission =
     Return (Some (getUnsupportedInAzureError ''add ssh key to repository''))"

definition GetRepositoryInfo ::
  "AzureReposClient \<Rightarrow> string \<Rightarrow> string \<Rightarrow> (RepositoryInfo \<times> error option) outcome" where
  "GetRepositoryInfo client owner repository =
     Return (RepositoryInfo_zero, Some (getUnsupportedInAzureError ''get repository info''))"

definition GetCommitBySha ::
  "AzureReposClient \<Rightarrow> string \<Rightarrow> string \<Rightarrow> string \<Rightarrow> (CommitInfo \<times> error option) outcome" where
  "GetCommitBySha client owner repository sha =
     Return (CommitInfo_zero, Some (getUnsupportedInAzureError ''get commit by sha''))"

definition CreateLabel ::
  "AzureReposClient \<Rightarrow> string \<Rightarrow> string \<Rightarrow> 'labelInfo \<Rightarrow> error option outcome" where
  "CreateLabel client owner repository labelInfo =
     Return (Some (getUnsupportedInAzureError ''create label''))"

definition GetLabel ::
  "AzureReposClient \<Rightarrow> string \<Rightarrow> string \<Rightarrow> string \<Rightarrow> ('labelInfo option \<times> error option) outcome" where
  "GetLabel client owner repository name =
     Return (None, Some (getUnsupportedInAzureError ''get label''))"

definition ListPullRequestLabels ::
  "AzureReposClient \<Rightarrow> string \<Rightarrow> string \<Rightarrow> int \<Rightarrow> (string list \<times> error option) outcome" where
  "ListPullRequestLabels client owner repository pullRequestID =
     Return ([], Some (getUnsupportedInAzureError ''list pull request labels''))"

definition UnlabelPullRequest ::
  "AzureReposClient \<Rightarrow> string \<Rightarrow> string \<Rightarrow> string \<Rightarrow> int \<Rightarrow> error option outcome" where
  "UnlabelPullRequest client owner repository name pullRequestID =
     Return (Some (getUnsupportedInAzureError ''unlabel pull request''))"

definition UploadCodeScanning ::
  "AzureReposClient \<Rightarrow> string \<Rightarrow> string \<Rightarrow> string \<Rightarrow> string \<Rightarrow> (string \<times> error option) outcome" where
  "UploadCodeScanning client owner repository branch scanResults =
     Return ([], Some (getUnsupportedInAzureError ''upload code scanning''))"

definition CreateWebhook ::
  "AzureReposClient \<Rightarrow> string \<Rightarrow> string \<Rightarrow> string \<Rightarrow> string \<Rightarrow> 'webhookEvent list
     \<Rightarrow> (string \<times> string \<times> error option) outcome" where
  "CreateWebhook client owner repository branch payloadURL webhookEvents =
     Return ([], [], Some (getUnsupportedInAzureError ''create webhook''))"

definition UpdateWebhook ::
  "AzureReposClient \<Rightarrow> string \<Rightarrow> string \<Rightarrow> string \<Rightarrow> string \<Rightarrow> string \<Rightarrow> string
     \<Rightarrow> 'webhookEvent list \<Rightarrow> error option outcome" where
  "UpdateWebhook client owner repository branch payloadURL token webhookID webhookEvents =
     Return (Some (getUnsupportedInAzureError ''update webhook''))"

definition DeleteWebhook ::
  "AzureReposClient \<Rightarrow> string \<Rightarrow> string \<Rightarrow> string \<Rightarrow> error option outcome" where
  "DeleteWebhook client owner repository webhookID =
     Return (Some (getUnsupportedInAzureError ''delete webhook''))"

definition SetCommitStatus ::
  "AzureReposClient \<Rightarrow> 'commitStatus \<Rightarrow> string \<Rightarrow> string \<Rightarrow> string \<Rightarrow> string \<Rightarrow> string
     \<Rightarrow> string \<Rightarrow> error option outcome" where
  "SetCommitStatus client commitStatus owner repository ref title description detailsURL =
     Return (Some (getUnsupportedInAzureError ''set commit status''))"

subsection \<open>DownloadRepository\<close>

text \<open>
  The collaborators of \<^verbatim>\<open>DownloadRepository\<close>: the process (\<^verbatim>\<open>os.Getwd\<close>, \<^verbatim>\<open>os.Chdir\<close>),
  \<^verbatim>\<open>net/http\<close>, \<^verbatim>\<open>io.ReadAll\<close> and \<^verbatim>\<open>vcsutils.Unzip\<close>. The state the caller shares with the
  call is the working directory of the process, a path. What \<^verbatim>\<open>Unzip\<close> writes below its
  destination is outside the model; only its error is a result.
  \<^item> \<open>Getwd_error\<close>: the error of \<^verbatim>\<open>os.Getwd()\<close>, if it fails;
  \<^item> \<open>Chdir_error dir\<close>: the error of \<^verbatim>\<open>os.Chdir(dir)\<close>, if it fails;
  \<^item> \<open>NewRequest_error method url\<close>: the error of \<^verbatim>\<open>http.NewRequestWithContext\<close>, if it fails;
  \<^item> \<open>Do request\<close>: the response pointer and the error of \<^verbatim>\<open>httpClient.Do\<close>;
  \<^item> \<open>Unzip content destination\<close>: the error of \<^verbatim>\<open>vcsutils.Unzip\<close>.
  A response body answers \<^verbatim>\<open>io.ReadAll\<close> and \<^verbatim>\<open>Close\<close>.
\<close>

record ReadCloser =
  ReadAll :: "string \<times> error option"
  Close :: "error option"

record http_Response =
  StatusCode :: int
  Body :: ReadCloser

record http_Request =
  Method :: string
  URL :: string
  Header :: "string \<rightharpoonup> string"

record env =
  Getwd_error :: "error option"
  Chdir_error :: "string \<Rightarrow> error option"
  NewRequest_error :: "string \<Rightarrow> string \<Rightarrow> error option"
  Do :: "http_Request \<Rightarrow> http_Response option \<times> error option"
  Unzip :: "string \<Rightarrow> string \<Rightarrow> error option"

text \<open>\<^verbatim>\<open>os.Getwd\<close> and \<^verbatim>\<open>os.Chdir\<close> on the working directory \<open>cwd\<close>.\<close>

definition os_Getwd :: "env \<Rightarrow> string \<Rightarrow> string \<times> error option" where
  "os_Getwd e cwd = (case Getwd_error e of None \<Rightarrow> (cwd, None) | Some err \<Rightarrow> ([], Some err))"

definition os_Chdir :: "env \<Rightarrow> string \<Rightarrow> string \<Rightarrow> error option \<times> string" where
  "os_Chdir e dir cwd = (case Chdir_error e dir of None \<Rightarrow> (None, dir) | Some err \<Rightarrow> (Some err, cwd))"

text \<open>
  \<^verbatim>\<open>sendDownloadRepoRequest\<close> has the named results \<^verbatim>\<open>res\<close> and \<^verbatim>\<open>err\<close>. The format string
  of the URL is taken byte for byte from the source (the three bytes after \<^verbatim>\<open>&[\<close> are
  \<^verbatim>\<open>E2 80 A6\<close>). \<^verbatim>\<open>client.connectionDetails.BaseUrl\<close> panics on a nil connection, and
  \<^verbatim>\<open>res.StatusCode\<close> on a nil response.
\<close>

definition sendDownloadRepoRequest ::
  "env \<Rightarrow> AzureReposClient \<Rightarrow> string \<Rightarrow> string \<Rightarrow> (http_Response option \<times> error option) outcome" where
  "sendDownloadRepoRequest e client repository branch =
     (case connectionDetails client of
        None \<Rightarrow> Panic
      | Some connection \<Rightarrow>
          (let downloadRepoUrl =
                 BaseUrl connection @ ''/'' @ Project (vcsInfo client)
                 @ ''/_apis/git/repositories/'' @ repository
                 @ ''/items/items?path=/&['' @ [CHR 0xE2, CHR 0x80, CHR 0xA6]
                 @ '']ptor[version]='' @ branch @ ''&$format=zip'';
               headers =
                 [''Authorization'' \<mapsto> AuthorizationString connection,
                  ''download'' \<mapsto> ''true'',
                  ''resolveLfs'' \<mapsto> ''true'']
           in case NewRequest_error e ''GET'' downloadRepoUrl of
                Some err \<Rightarrow> Return (None, Some err)
              | None \<Rightarrow>
                  (case Do e \<lparr>Method = ''GET'', URL = downloadRepoUrl, Header = headers\<rparr> of
                     (res, Some err) \<Rightarrow> Return (res, Some err)
                   | (None, None) \<Rightarrow> Panic
                   | (Some res, None) \<Rightarrow>
                       Return (Some res,
                         if StatusCode res < 200 \<or> 300 \<le> StatusCode res
                         then Some (errorString (''bad HTTP status: '' @ itoa (StatusCode res)))
                         else None))))"

text \<open>
  The second deferred function, \<^verbatim>\<open>e := res.Body.Close(); if err == nil { err = e }\<close>. It is
  registered before \<^verbatim>\<open>err\<close> is tested, so it also runs when the request failed; \<^verbatim>\<open>res.Body\<close>
  on a nil \<^verbatim>\<open>res\<close> panics.
\<close>

fun deferred_Close :: "http_Response option \<Rightarrow> error option outcome \<Rightarrow> error option outcome" where
  "deferred_Close None r = Panic"
| "deferred_Close (Some res) Panic = Panic"
| "deferred_Close (Some res) (Return err) =
     Return (if err = None then Close (Body res) else err)"

text \<open>
  The first deferred function, \<^verbatim>\<open>e := os.Chdir(wd); if err == nil { err = e }\<close>. Deferred
  functions run last-in first-out and also while the goroutine panics, so this one runs
  after \<open>deferred_Close\<close> and whatever the outcome so far.
\<close>

definition deferred_Chdir ::
  "env \<Rightarrow> string \<Rightarrow> error option outcome \<Rightarrow> string \<Rightarrow> error option outcome \<times> string" where
  "deferred_Chdir e wd r cwd =
     (case os_Chdir e wd cwd of
        (e', cwd') \<Rightarrow>
          (case r of
             Panic \<Rightarrow> (Panic, cwd')
           | Return err \<Rightarrow> (Return (if err = None then e' else err), cwd')))"

text \<open>The statements after the second \<^verbatim>\<open>defer\<close>, up to the \<^verbatim>\<open>return\<close> that ends the body.\<close>

definition DownloadRepository_extract ::
  "env \<Rightarrow> http_Response option \<Rightarrow> error option \<Rightarrow> string \<Rightarrow> error option outcome" where
  "DownloadRepository_extract e res err localPath =
     (case err of
        Some err' \<Rightarrow> Return (Some err')
      | None \<Rightarrow>
          (case res of
             None \<Rightarrow> Panic
           | Some res' \<Rightarrow>
               (case ReadAll (Body res') of
                  (zipFileContent, Some err') \<Rightarrow> Return (Some err')
                | (zipFileContent, None) \<Rightarrow>
                    (case Unzip e zipFileContent localPath of
                       Some err' \<Rightarrow> Return (Some err')
                     | None \<Rightarrow> Return None))))"

text \<open>
  \<open>DownloadRepository\<close> returns its outcome and the working directory it leaves. A panic
  inside \<^verbatim>\<open>sendDownloadRepoRequest\<close> happens before the second \<^verbatim>\<open>defer\<close> statement is
  reached, so only the first deferred function runs then.
\<close>

definition DownloadRepository ::
  "env \<Rightarrow> AzureReposClient \<Rightarrow> string \<Rightarrow> string \<Rightarrow> string \<Rightarrow> string \<Rightarrow> string
     \<Rightarrow> error option outcome \<times> string" where
  "DownloadRepository e client owner repository branch localPath cwd =
     (case os_Getwd e cwd of
        (wd, Some err) \<Rightarrow> (Return (Some err), cwd)
      | (wd, None) \<Rightarrow>
          (case os_Chdir e localPath cwd of
             (Some err, cwd') \<Rightarrow> (Return (Some err), cwd')
           | (None, cwd') \<Rightarrow>
               deferred_Chdir e wd
                 (case sendDownloadRepoRequest e client repository branch of
                    Panic \<Rightarrow> Panic
                  | Return (res, err) \<Rightarrow>
                      deferred_Close res (DownloadRepository_extract e res err localPath))
                 cwd'))"

section \<open>Provider responses with every field set\<close>

text \<open>
  \<open>ListPullRequestComments\<close> dereferences, without a nil test, the author of a comment,
  the author's display name, the comment's id and its content, and the id, the comments
  and the published date of a thread. A comment or thread is populated when none of these
  is nil.
\<close>

definition comment_populated :: "Comment \<Rightarrow> bool" where
  "comment_populated comment \<longleftrightarrow>
     (case Comment.Author comment of None \<Rightarrow> False | Some author \<Rightarrow> DisplayName author \<noteq> None) \<and>
     Comment.Id comment \<noteq> None \<and> Comment.Content comment \<noteq> None"

definition thread_populated :: "GitPullRequestCommentThread \<Rightarrow> bool" where
  "thread_populated thread \<longleftrightarrow>
     GitPullRequestCommentThread.Id thread \<noteq> None \<and> PublishedDate thread \<noteq> None \<and>
     (case Comments thread of None \<Rightarrow> False | Some comments \<Rightarrow> list_all comment_populated comments)"

section \<open>Example collaborators\<close>

text \<open>
  A client as \<^verbatim>\<open>NewAzureReposClient\<close> leaves it (the connection is set), and a provider
  whose state is the list of pull requests created so far. The provider serves two
  repositories, two branches, three threads \<open>A\<close>, \<open>B\<close>, \<open>C\<close> in the order they were published
  and two commits, the newest first.
\<close>

definition example_client :: AzureReposClient where
  "example_client =
     \<lparr>vcsInfo = \<lparr>APIEndpoint = ''https://dev.azure.com/org'', Token = ''pat'', Project = ''proj''\<rparr>,
      connectionDetails =
        Some \<lparr>BaseUrl = ''https://dev.azure.com/org'', AuthorizationString = ''Basic OnBhdA==''\<rparr>\<rparr>"

definition example_comment :: "string \<Rightarrow> int \<Rightarrow> string \<Rightarrow> Comment" where
  "example_comment author commentId content =
     \<lparr>Comment.Author = Some \<lparr>DisplayName = Some author\<rparr>, Comment.Id = Some commentId,
      Comment.Content = Some content\<rparr>"

definition example_threads :: "GitPullRequestCommentThread list" where
  "example_threads =
     [\<lparr>GitPullRequestCommentThread.Id = Some 11,
       Comments = Some [example_comment ''Ann'' 1 ''A'', example_comment ''Bob'' 27 ''ok''],
       PublishedDate = Some \<lparr>Time = time_Time 100 0\<rparr>, Status = Some ''active''\<rparr>,
      \<lparr>GitPullRequestCommentThread.Id = Some 12,
       Comments = Some [example_comment ''Bob'' 105 ''B''],
       PublishedDate = Some \<lparr>Time = time_Time 200 0\<rparr>, Status = Some ''active''\<rparr>,
      \<lparr>GitPullRequestCommentThread.Id = Some 13,
       Comments = Some [example_comment ''Cy'' 1 ''C''],
       PublishedDate = Some \<lparr>Time = time_Time 300 5\<rparr>, Status = None\<rparr>]"

definition example_commits :: "GitCommitRef list" where
  "example_commits =
     [\<lparr>CommitId = Some ''c0ffee'',
       GitCommitRef.Author = Some \<lparr>GitUserDate.Name = Some ''Ann'',
                                   Date = Some \<lparr>Time = time_Time 1000 0\<rparr>\<rparr>,
       Committer = Some \<lparr>GitUserDate.Name = Some ''Bob'',
                          Date = Some \<lparr>Time = time_Time 2000 0\<rparr>\<rparr>,
       GitCommitRef.Url = Some ''https://dev.azure.com/org/proj/_git/repo/commit/c0ffee'',
       GitCommitRef.Comment = Some ''fix'', Parents = Some [''beef'']\<rparr>,
      \<lparr>CommitId = Some ''beef'',
       GitCommitRef.Author = Some \<lparr>GitUserDate.Name = Some ''Ann'',
                                   Date = Some \<lparr>Time = time_Time 500 0\<rparr>\<rparr>,
       Committer = Some \<lparr>GitUserDate.Name = Some ''Ann'',
                          Date = Some \<lparr>Time = time_Time 500 0\<rparr>\<rparr>,
       GitCommitRef.Url = None, GitCommitRef.Comment = None, Parents = None\<rparr>]"

definition example_sdk :: "GitPullRequest list azure_sdk" where
  "example_sdk =
     \<lparr>git_NewClient = (\<lambda>connection s. None),
      GetResourceAreas = (\<lambda>connection baseUrl s. None),
      git_GetRepositories =
        (\<lambda>project s. (Some [\<lparr>GitRepository.Name = Some ''alpha''\<rparr>,
                              \<lparr>GitRepository.Name = Some ''beta''\<rparr>], None)),
      git_GetBranches =
        (\<lambda>project repository s. (Some [\<lparr>GitBranchStats.Name = Some ''main''\<rparr>,
                                         \<lparr>GitBranchStats.Name = Some ''dev''\<rparr>], None)),
      git_CreatePullRequest =
        (\<lambda>pullRequest repository project s. ((Some pullRequest, None), s @ [pullRequest])),
      git_CreateThread =
        (\<lambda>thread repository pullRequestId project s. ((Some thread, None), s)),
      git_GetThreads = (\<lambda>repository pullRequestId project s. (Some example_threads, None)),
      git_GetPullRequests = (\<lambda>repository project status s. (Some s, None)),
      git_GetCommits =
        (\<lambda>repository project version versionType s. (Some example_commits, None))\<rparr>"

text \<open>A provider that rejects every call with an error of its own (the token is invalid).\<close>

definition failing_sdk :: "unit azure_sdk" where
  "failing_sdk =
     \<lparr>git_NewClient = (\<lambda>connection s. None),
      GetResourceAreas = (\<lambda>connection baseUrl s. Some (Native ''401 Unauthorized'')),
      git_GetRepositories = (\<lambda>project s. (None, Some (Native ''401 Unauthorized''))),
      git_GetBranches = (\<lambda>project repository s. (None, Some (Native ''401 Unauthorized''))),
      git_CreatePullRequest =
        (\<lambda>pullRequest repository project s. ((None, Some (Native ''401 Unauthorized'')), s)),
      git_CreateThread =
        (\<lambda>thread repository pullRequestId project s. ((None, Some (Native ''401 Unauthorized'')), s)),
      git_GetThreads = (\<lambda>repository pullRequestId project s. (None, Some (Native ''401 Unauthorized''))),
      git_GetPullRequests = (\<lambda>repository project status s. (None, Some (Native ''401 Unauthorized''))),
      git_GetCommits =
        (\<lambda>repository project version versionType s. (None, Some (Native ''401 Unauthorized'')))\<rparr>"

text \<open>
  A process in which every step works, and one whose network is down: \<^verbatim>\<open>httpClient.Do\<close>
  returns a nil response and an error.
\<close>

definition example_env :: env where
  "example_env =
     \<lparr>Getwd_error = None,
      Chdir_error = (\<lambda>dir. None),
      NewRequest_error = (\<lambda>method url. None),
      Do = (\<lambda>request. (Some \<lparr>StatusCode = 200,
                                Body = \<lparr>ReadAll = (''PK'', None), Close = None\<rparr>\<rparr>, None)),
      Unzip = (\<lambda>content destination. None)\<rparr>"

definition offline_env :: env where
  "offline_env = example_env\<lparr>Do := (\<lambda>request. (None, Some (Native ''dial tcp: no route to host'')))\<rparr>"

text \<open>
  What the backend returns for the three example threads, a stand-in for
  \<^verbatim>\<open>vcsutils.AddBranchPrefix\<close>, a provider with an empty project, and a client whose
  connection was never set.
\<close>

definition example_infos :: "CommentInfo list" where
  "example_infos =
     [\<lparr>CommentInfo.ID = 11,
       CommentInfo.Content = ''Author: Ann, Id: 1, Content:A'' @ [CHR 0x0A]
                             @ ''Author: Bob, Id: 27, Content:ok'' @ [CHR 0x0A],
       Created = time_Time 100 0\<rparr>,
      \<lparr>CommentInfo.ID = 12,
       CommentInfo.Content = ''Author: Bob, Id: 105, Content:B'' @ [CHR 0x0A],
       Created = time_Time 200 0\<rparr>,
      \<lparr>CommentInfo.ID = 13,
       CommentInfo.Content = ''Author: Cy, Id: 1, Content:C'' @ [CHR 0x0A],
       Created = time_Time 300 5\<rparr>]"

definition example_AddBranchPrefix :: "string \<Rightarrow> string" where
  "example_AddBranchPrefix branch = ''refs/heads/'' @ branch"

definition empty_sdk :: "GitPullRequest list azure_sdk" where
  "empty_sdk =
     example_sdk
       \<lparr>git_GetRepositories := (\<lambda>project s. (Some [], None)),
        git_GetThreads := (\<lambda>repository pullRequestId project s. (Some [], None)),
        git_GetCommits := (\<lambda>repository project version versionType s. (Some [], None))\<rparr>"

definition unconnected_client :: AzureReposClient where
  "unconnected_client = example_client\<lparr>connectionDetails := None\<rparr>"

text \<open>
  A provider that refuses a pull request from a branch to itself, with an error of its
  own, and accepts any other.
\<close>

definition strict_sdk :: "GitPullRequest list azure_sdk" where
  "strict_sdk =
     example_sdk
       \<lparr>git_CreatePullRequest :=
          (\<lambda>pullRequest repository project s.
             if SourceRefName pullRequest = TargetRefName pullRequest
             then ((None, Some (Native ''400 Bad Request'')), s)
             else ((Some pullRequest, None), s @ [pullRequest]))\<rparr>"

text \<open>
  A provider that lists the three example threads newest first, and one whose only
  thread holds a deleted comment: the author and the id are there, the content is nil.
\<close>

definition reversed_sdk :: "GitPullRequest list azure_sdk" where
  "reversed_sdk =
     example_sdk
       \<lparr>git_GetThreads := (\<lambda>repository pullRequestId project s. (Some (rev example_threads), None))\<rparr>"

definition deleted_comment_threads :: "GitPullRequestCommentThread list" where
  "deleted_comment_threads =
     [\<lparr>GitPullRequestCommentThread.Id = Some 11,
       Comments = Some [example_comment ''Ann'' 1 ''A'',
                        \<lparr>Comment.Author = Some \<lparr>DisplayName = Some ''Bob''\<rparr>,
                         Comment.Id = Some 2, Comment.Content = None\<rparr>],
       PublishedDate = Some \<lparr>Time = time_Time 100 0\<rparr>, Status = Some ''active''\<rparr>]"

definition deleted_comment_sdk :: "GitPullRequest list azure_sdk" where
  "deleted_comment_sdk =
     example_sdk
       \<lparr>git_GetThreads :=
          (\<lambda>repository pullRequestId project s. (Some deleted_comment_threads, None))\<rparr>"

section \<open>Properties of the backend\<close>

subsection \<open>Decimal notation\<close>

text \<open>
  \<open>digits n\<close> is the decimal notation of \<open>n\<close>: a non-empty string of decimal digits that
  denotes \<open>n\<close> and starts with \<open>0\<close> only for \<open>n = 0\<close>.
\<close>

lemma digit_char:
  assumes "k < 10"
  shows "of_char (''0123456789'' ! k) = 48 + k" and "''0123456789'' ! k \<in> set ''0123456789''"
proof -
  from assms have "k \<in> {0, 1, 2, 3, 4, 5, 6, 7, 8, 9}" by auto
  then show "of_char (''0123456789'' ! k) = 48 + k" by auto
  from assms show "''0123456789'' ! k \<in> set ''0123456789''" by (intro nth_mem) simp
qed

lemma decimal_value_digits: "decimal_value (digits n) = n"
proof (induction n rule: digits.induct)
  case (1 n)
  show ?case
  proof (cases "n < 10")
    case True
    then show ?thesis
      by (subst digits.simps) (simp add: decimal_value_def digit_char(1))
  next
    case False
    with "1.IH" have "decimal_value (digits (n div 10)) = n div 10" by simp
    with False show ?thesis
      by (subst digits.simps) (simp add: decimal_value_def digit_char(1))
  qed
qed

lemma digits_are_digits: "digits n \<noteq> [] \<and> set (digits n) \<subseteq> set ''0123456789''"
proof (induction n rule: digits.induct)
  case (1 n)
  show ?case
  proof (cases "n < 10")
    case True
    from digit_char(2) [OF True] show ?thesis
      by (subst (1 2) digits.simps) (simp add: True)
  next
    case False
    have "n mod 10 < 10" by simp
    from digit_char(2) [OF this] "1.IH" False show ?thesis
      by (subst (1 2) digits.simps) simp
  qed
qed

lemma digits_no_leading_zero: "hd (digits n) = CHR ''0'' \<longrightarrow> n = 0"
proof (induction n rule: digits.induct)
  case (1 n)
  show ?case
  proof (cases "n < 10")
    case True
    then have "n \<in> {0, 1, 2, 3, 4, 5, 6, 7, 8, 9}" by auto
    then show ?thesis
      by (subst digits.simps) auto
  next
    case False
    then have "n div 10 \<noteq> 0" by auto
    with "1.IH" False digits_are_digits [of "n div 10"] show ?thesis
      by (subst digits.simps) simp
  qed
qed

subsection \<open>Unsupported operations\<close>

text \<open>
  C1. Each of the twelve operations Azure Repos does not support returns, on every input,
  without panicking, a non-nil error whose message names the operation and the provider
  (\<open>Azure Repos\<close>), together with the zero value of every other result.
\<close>

theorem unsupported_operations_return_error:
  "AddSshKeyToRepository client owner repository keyName publicKey permission =
     Return (Some (errorString (''add ssh key to repository'' @ '' is currently not supported for '' @ ''Azure Repos'')))
   \<and> GetRepositoryInfo client owner repository =
     Return (RepositoryInfo_zero,
       Some (errorString (''get repository info'' @ '' is currently not supported for '' @ ''Azure Repos'')))
   \<and> GetCommitBySha client owner repository sha =
     Return (CommitInfo_zero,
       Some (errorString (''get commit by sha'' @ '' is currently not supported for '' @ ''Azure Repos'')))
   \<and> CreateLabel client owner repository labelInfo =
     Return (Some (errorString (''create label'' @ '' is currently not supported for '' @ ''Azure Repos'')))
   \<and> GetLabel client owner repository name =
     Return (None,
       Some (errorString (''get label'' @ '' is currently not supported for '' @ ''Azure Repos'')))
   \<and> ListPullRequestLabels client owner repository pullRequestID =
     Return ([],
       Some (errorString (''list pull request labels'' @ '' is currently not supported for '' @ ''Azure Repos'')))
   \<and> UnlabelPullRequest client owner repository name pullRequestID =
     Return (Some (errorString (''unlabel pull request'' @ '' is currently not supported for '' @ ''Azure Repos'')))
   \<and> UploadCodeScanning client owner repository branch scanResults =
     Return ([],
       Some (errorString (''upload code scanning'' @ '' is currently not supported for '' @ ''Azure Repos'')))
   \<and> CreateWebhook client owner repository branch payloadURL webhookEvents =
     Return ([], [],
       Some (errorString (''create webhook'' @ '' is currently not supported for '' @ ''Azure Repos'')))
   \<and> UpdateWebhook client owner repository branch payloadURL token webhookID webhookEvents =
     Return (Some (errorString (''update webhook'' @ '' is currently not supported for '' @ ''Azure Repos'')))
   \<and> DeleteWebhook client owner repository webhookID =
     Return (Some (errorString (''delete webhook'' @ '' is currently not supported for '' @ ''Azure Repos'')))
   \<and> SetCommitStatus client commitStatus owner repository ref title description detailsURL =
     Return (Some (errorString (''set commit status'' @ '' is currently not supported for '' @ ''Azure Repos'')))"
  by (simp add: AddSshKeyToRepository_def GetRepositoryInfo_def GetCommitBySha_def CreateLabel_def
      GetLabel_def ListPullRequestLabels_def UnlabelPullRequest_def UploadCodeScanning_def
      CreateWebhook_def UpdateWebhook_def DeleteWebhook_def SetCommitStatus_def
      getUnsupportedInAzureError_def)

subsection \<open>DownloadRepository\<close>

text \<open>
  Whatever the outcome, the working directory is the caller's again once \<^verbatim>\<open>os.Getwd\<close>
  worked and the deferred \<^verbatim>\<open>os.Chdir(wd)\<close> works.
\<close>

lemma DownloadRepository_restores_cwd:
  assumes "Getwd_error e = None" and "Chdir_error e cwd = None"
  shows "snd (DownloadRepository e client owner repository branch localPath cwd) = cwd"
  using assms
  by (auto simp: DownloadRepository_def os_Getwd_def os_Chdir_def deferred_Chdir_def
      split: option.splits outcome.splits prod.splits)

text \<open>
  A request that fails without a response (\<^verbatim>\<open>http.NewRequestWithContext\<close> or
  \<^verbatim>\<open>httpClient.Do\<close> returning an error) makes the call panic in the deferred
  \<^verbatim>\<open>res.Body.Close()\<close>, instead of returning the error.
\<close>

lemma DownloadRepository_request_failure_panics:
  assumes "Getwd_error e = None" and "Chdir_error e localPath = None"
    and "sendDownloadRepoRequest e client repository branch = Return (None, Some err)"
  shows "fst (DownloadRepository e client owner repository branch localPath cwd) = Panic"
  using assms
  by (auto simp: DownloadRepository_def os_Getwd_def os_Chdir_def deferred_Chdir_def
      split: option.splits outcome.splits prod.splits)

text \<open>
  C2. The claim: on every step failure \<open>DownloadRepository\<close> returns an error, never panics,
  and leaves the working directory as it was. With the network down (\<^verbatim>\<open>httpClient.Do\<close>
  returns a nil response and an error) the call restores the working directory but
  panics.
\<close>

theorem DownloadRepository_network_failure_panics:
  "DownloadRepository offline_env example_client ''org'' ''repo'' ''main'' ''/tmp/dest'' ''/home/user''
   = (Panic, ''/home/user'')"
  by (simp add: DownloadRepository_def os_Getwd_def os_Chdir_def offline_env_def example_env_def
      sendDownloadRepoRequest_def example_client_def deferred_Chdir_def
      DownloadRepository_extract_def)

subsection \<open>Errors\<close>

lemma buildAzureReposClient_error:
  "buildAzureReposClient sdk client s = Some e \<Longrightarrow>
   e = errorString (''connection details wasn'' @ [CHR 0x27] @ ''t initialized'') \<or>
   (\<exists>connection. connectionDetails client = Some connection \<and> git_NewClient sdk connection s = Some e)"
  by (auto simp: buildAzureReposClient_def split: option.splits)

lemma example_buildAzureReposClient:
  "buildAzureReposClient example_sdk example_client s = None"
  "buildAzureReposClient empty_sdk example_client s = None"
  "buildAzureReposClient failing_sdk example_client u = None"
  by (simp_all add: buildAzureReposClient_def example_sdk_def empty_sdk_def failing_sdk_def
      example_client_def)

text \<open>
  C3, as the claim states it, fails: with an invalid token \<open>TestConnection\<close> hands the
  caller the provider's own error value.
\<close>

theorem TestConnection_returns_native_error:
  "TestConnection failing_sdk example_client () = Return (Some (Native ''401 Unauthorized''))"
  by (simp add: TestConnection_def failing_sdk_def example_client_def)

text \<open>
  C3, amended. The backend does not classify errors. Whenever \<open>TestConnection\<close> or an
  operation that calls the SDK returns an error, that error is the very value the SDK
  returned (from \<^verbatim>\<open>git.NewClient\<close> or from the operation's own call), unchanged, or it is
  the message error \<open>connection details wasn't initialized\<close> of \<open>buildAzureReposClient\<close>.
\<close>

theorem errors_pass_through:
  "(TestConnection sdk client s = Return (Some e) \<longrightarrow>
      (\<exists>connection. connectionDetails client = Some connection \<and>
         GetResourceAreas sdk connection (BaseUrl connection) s = Some e))
   \<and> (ListRepositories sdk client s = Return (repositories, Some e) \<longrightarrow>
        buildAzureReposClient sdk client s = Some e \<or>
        snd (git_GetRepositories sdk (Project (vcsInfo client)) s) = Some e)
   \<and> (ListBranches sdk client owner repository s = Return (branches, Some e) \<longrightarrow>
        buildAzureReposClient sdk client s = Some e \<or>
        snd (git_GetBranches sdk (Project (vcsInfo client)) repository s) = Some e)
   \<and> (fst (CreatePullRequest sdk AddBranchPrefix client owner repository sourceBranch targetBranch
              title description s) = Return (Some e) \<longrightarrow>
        buildAzureReposClient sdk client s = Some e \<or>
        snd (fst (git_CreatePullRequest sdk
                    (GitPullRequestToCreate AddBranchPrefix sourceBranch targetBranch title description)
                    repository (Project (vcsInfo client)) s)) = Some e)
   \<and> (fst (AddPullRequestComment sdk client owner repository content pullRequestID s)
          = Return (Some e) \<longrightarrow>
        buildAzureReposClient sdk client s = Some e \<or>
        snd (fst (git_CreateThread sdk (CommentThread content) repository pullRequestID
                    (Project (vcsInfo client)) s)) = Some e)
   \<and> (ListPullRequestComments sdk client owner repository pullRequestID s
          = Return (commentInfo, Some e) \<longrightarrow>
        buildAzureReposClient sdk client s = Some e \<or>
        snd (git_GetThreads sdk repository pullRequestID (Project (vcsInfo client)) s) = Some e)
   \<and> (ListOpenPullRequests sdk client owner repository s = Return (pullRequestsInfo, Some e) \<longrightarrow>
        buildAzureReposClient sdk client s = Some e \<or>
        snd (git_GetPullRequests sdk repository (Project (vcsInfo client))
               PullRequestStatusValues_Active s) = Some e)
   \<and> (GetLatestCommit sdk client owner repository branch s = Return (latestCommitInfo, Some e) \<longrightarrow>
        buildAzureReposClient sdk client s = Some e \<or>
        snd (git_GetCommits sdk repository (Project (vcsInfo client)) branch
               GitVersionTypeValues_Branch s) = Some e)
   \<and> (buildAzureReposClient sdk client s = Some e \<longrightarrow>
        e = errorString (''connection details wasn'' @ [CHR 0x27] @ ''t initialized'') \<or>
        (\<exists>connection. connectionDetails client = Some connection \<and>
           git_NewClient sdk connection s = Some e))"
proof (intro conjI impI)
  assume "TestConnection sdk client s = Return (Some e)"
  then show "\<exists>connection. connectionDetails client = Some connection \<and>
         GetResourceAreas sdk connection (BaseUrl connection) s = Some e"
    by (auto simp: TestConnection_def split: option.splits)
next
  assume "ListRepositories sdk client s = Return (repositories, Some e)"
  then show "buildAzureReposClient sdk client s = Some e \<or>
        snd (git_GetRepositories sdk (Project (vcsInfo client)) s) = Some e"
    by (auto simp: ListRepositories_def split: option.splits prod.splits outcome.splits)
next
  assume "ListBranches sdk client owner repository s = Return (branches, Some e)"
  then show "buildAzureReposClient sdk client s = Some e \<or>
        snd (git_GetBranches sdk (Project (vcsInfo client)) repository s) = Some e"
    by (auto simp: ListBranches_def split: option.splits prod.splits outcome.splits)
next
  assume "fst (CreatePullRequest sdk AddBranchPrefix client owner repository sourceBranch targetBranch
              title description s) = Return (Some e)"
  then show "buildAzureReposClient sdk client s = Some e \<or>
        snd (fst (git_CreatePullRequest sdk
                    (GitPullRequestToCreate AddBranchPrefix sourceBranch targetBranch title description)
                    repository (Project (vcsInfo client)) s)) = Some e"
    by (auto simp: CreatePullRequest_def split: option.splits prod.splits)
next
  assume "fst (AddPullRequestComment sdk client owner repository content pullRequestID s)
          = Return (Some e)"
  then show "buildAzureReposClient sdk client s = Some e \<or>
        snd (fst (git_CreateThread sdk (CommentThread content) repository pullRequestID
                    (Project (vcsInfo client)) s)) = Some e"
    by (auto simp: AddPullRequestComment_def split: option.splits prod.splits)
next
  assume "ListPullRequestComments sdk client owner repository pullRequestID s
          = Return (commentInfo, Some e)"
  then show "buildAzureReposClient sdk client s = Some e \<or>
        snd (git_GetThreads sdk repository pullRequestID (Project (vcsInfo client)) s) = Some e"
    by (auto simp: ListPullRequestComments_def split: option.splits prod.splits outcome.splits)
next
  assume "ListOpenPullRequests sdk client owner repository s = Return (pullRequestsInfo, Some e)"
  then show "buildAzureReposClient sdk client s = Some e \<or>
        snd (git_GetPullRequests sdk repository (Project (vcsInfo client))
               PullRequestStatusValues_Active s) = Some e"
    by (auto simp: ListOpenPullRequests_def split: option.splits prod.splits outcome.splits)
next
  assume "GetLatestCommit sdk client owner repository branch s = Return (latestCommitInfo, Some e)"
  then show "buildAzureReposClient sdk client s = Some e \<or>
        snd (git_GetCommits sdk repository (Project (vcsInfo client)) branch
               GitVersionTypeValues_Branch s) = Some e"
    by (auto simp: GetLatestCommit_def split: option.splits prod.splits outcome.splits list.splits)
next
  assume "buildAzureReposClient sdk client s = Some e"
  then show "e = errorString (''connection details wasn'' @ [CHR 0x27] @ ''t initialized'') \<or>
        (\<exists>connection. connectionDetails client = Some connection \<and>
           git_NewClient sdk connection s = Some e)"
    by (rule buildAzureReposClient_error)
qed

theorem errors_pass_through_witness:
  "TestConnection failing_sdk example_client () = Return (Some (Native ''401 Unauthorized''))
   \<and> (\<exists>connection. connectionDetails example_client = Some connection \<and>
         GetResourceAreas failing_sdk connection (BaseUrl connection) ()
           = Some (Native ''401 Unauthorized''))
   \<and> ListRepositories failing_sdk example_client ()
       = Return (Map.empty, Some (Native ''401 Unauthorized''))
   \<and> snd (git_GetRepositories failing_sdk (Project (vcsInfo example_client)) ())
       = Some (Native ''401 Unauthorized'')
   \<and> ListBranches failing_sdk example_client ''org'' ''repo'' ()
       = Return ([], Some (Native ''401 Unauthorized''))
   \<and> snd (git_GetBranches failing_sdk (Project (vcsInfo example_client)) ''repo'' ())
       = Some (Native ''401 Unauthorized'')
   \<and> fst (CreatePullRequest failing_sdk example_AddBranchPrefix example_client ''org'' ''repo''
            ''dev'' ''main'' ''title'' ''text'' ())
       = Return (Some (Native ''401 Unauthorized''))
   \<and> snd (fst (git_CreatePullRequest failing_sdk
                 (GitPullRequestToCreate example_AddBranchPrefix ''dev'' ''main'' ''title'' ''text'')
                 ''repo'' (Project (vcsInfo example_client)) ()))
       = Some (Native ''401 Unauthorized'')
   \<and> fst (AddPullRequestComment failing_sdk example_client ''org'' ''repo'' ''hello'' 7 ())
       = Return (Some (Native ''401 Unauthorized''))
   \<and> snd (fst (git_CreateThread failing_sdk (CommentThread ''hello'') ''repo'' 7
                 (Project (vcsInfo example_client)) ()))
       = Some (Native ''401 Unauthorized'')
   \<and> ListPullRequestComments failing_sdk example_client ''org'' ''repo'' 7 ()
       = Return ([], Some (Native ''401 Unauthorized''))
   \<and> snd (git_GetThreads failing_sdk ''repo'' 7 (Project (vcsInfo example_client)) ())
       = Some (Native ''401 Unauthorized'')
   \<and> ListOpenPullRequests failing_sdk example_client ''org'' ''repo'' ()
       = Return ([], Some (Native ''401 Unauthorized''))
   \<and> snd (git_GetPullRequests failing_sdk ''repo'' (Project (vcsInfo example_client))
            PullRequestStatusValues_Active ())
       = Some (Native ''401 Unauthorized'')
   \<and> GetLatestCommit failing_sdk example_client ''org'' ''repo'' ''main'' ()
       = Return (CommitInfo_zero, Some (Native ''401 Unauthorized''))
   \<and> snd (git_GetCommits failing_sdk ''repo'' (Project (vcsInfo example_client)) ''main''
            GitVersionTypeValues_Branch ())
       = Some (Native ''401 Unauthorized'')
   \<and> buildAzureReposClient failing_sdk unconnected_client ()
       = Some (errorString (''connection details wasn'' @ [CHR 0x27] @ ''t initialized''))"
proof -
  have t: "TestConnection failing_sdk example_client () = Return (Some (Native ''401 Unauthorized''))"
    by (simp add: TestConnection_def failing_sdk_def example_client_def)
  have r: "ListRepositories failing_sdk example_client ()
             = Return (Map.empty, Some (Native ''401 Unauthorized''))"
    by (simp add: ListRepositories_def example_buildAzureReposClient) (simp add: failing_sdk_def)
  have b: "ListBranches failing_sdk example_client ''org'' ''repo'' ()
             = Return ([], Some (Native ''401 Unauthorized''))"
    by (simp add: ListBranches_def example_buildAzureReposClient) (simp add: failing_sdk_def)
  have c: "fst (CreatePullRequest failing_sdk example_AddBranchPrefix example_client ''org'' ''repo''
                  ''dev'' ''main'' ''title'' ''text'' ())
             = Return (Some (Native ''401 Unauthorized''))"
    by (simp add: CreatePullRequest_def example_buildAzureReposClient) (simp add: failing_sdk_def)
  have a: "fst (AddPullRequestComment failing_sdk example_client ''org'' ''repo'' ''hello'' 7 ())
             = Return (Some (Native ''401 Unauthorized''))"
    by (simp add: AddPullRequestComment_def example_buildAzureReposClient) (simp add: failing_sdk_def)
  have l: "ListPullRequestComments failing_sdk example_client ''org'' ''repo'' 7 ()
             = Return ([], Some (Native ''401 Unauthorized''))"
    by (simp add: ListPullRequestComments_def example_buildAzureReposClient)
      (simp add: failing_sdk_def)
  have p: "ListOpenPullRequests failing_sdk example_client ''org'' ''repo'' ()
             = Return ([], Some (Native ''401 Unauthorized''))"
    by (simp add: ListOpenPullRequests_def example_buildAzureReposClient) (simp add: failing_sdk_def)
  have g: "GetLatestCommit failing_sdk example_client ''org'' ''repo'' ''main'' ()
             = Return (CommitInfo_zero, Some (Native ''401 Unauthorized''))"
    by (simp add: GetLatestCommit_def example_buildAzureReposClient) (simp add: failing_sdk_def)
  have u: "buildAzureReposClient failing_sdk unconnected_client ()
             = Some (errorString (''connection details wasn'' @ [CHR 0x27] @ ''t initialized''))"
    by (simp add: buildAzureReposClient_def unconnected_client_def)
  note w = errors_pass_through
      [where sdk = failing_sdk and client = example_client and s = "()"
         and e = "Native ''401 Unauthorized''" and repositories = Map.empty
         and owner = "''org''" and repository = "''repo''" and branches = "[]"
         and AddBranchPrefix = example_AddBranchPrefix and sourceBranch = "''dev''"
         and targetBranch = "''main''" and title = "''title''" and description = "''text''"
         and content = "''hello''" and pullRequestID = 7 and commentInfo = "[]"
         and pullRequestsInfo = "[]" and branch = "''main''"
         and latestCommitInfo = CommitInfo_zero]
  note v = errors_pass_through
      [where sdk = failing_sdk and client = unconnected_client and s = "()"
         and e = "errorString (''connection details wasn'' @ [CHR 0x27] @ ''t initialized'')"]
  from w v t r b c a l p g u example_buildAzureReposClient(3) [of "()"]
  show ?thesis by simp
qed

subsection \<open>ListRepositories\<close>

lemma ListRepositories_loop_names:
  "map GitRepository.Name repos = map Some names \<Longrightarrow>
   ListRepositories_loop project repos m =
     Return (if names = [] then m
             else m(project \<mapsto> (case m project of None \<Rightarrow> [] | Some ns \<Rightarrow> ns) @ names))"
proof (induction repos arbitrary: m names)
  case Nil
  then show ?case by simp
next
  case (Cons repo rest)
  from Cons.prems obtain name names' where n: "names = name # names'"
    and r: "GitRepository.Name repo = Some name"
    and m: "map GitRepository.Name rest = map Some names'"
    by (cases names) auto
  show ?case
    unfolding n using r Cons.IH [OF m] by (auto simp: fun_eq_iff)
qed

lemma ListRepositories_loop_Return_names:
  "ListRepositories_loop project repos m = Return m' \<Longrightarrow>
   \<exists>names. map GitRepository.Name repos = map Some names"
proof (induction repos arbitrary: m)
  case Nil
  then show ?case by simp
next
  case (Cons repo rest)
  from Cons.prems obtain name where r: "GitRepository.Name repo = Some name"
    by (cases "GitRepository.Name repo") auto
  with Cons.prems obtain m1 where "ListRepositories_loop project rest m1 = Return m'"
    by auto
  from Cons.IH [OF this] obtain names where "map GitRepository.Name rest = map Some names" ..
  with r have "map GitRepository.Name (repo # rest) = map Some (name # names)" by simp
  then show ?case ..
qed

text \<open>
  C9. Every successful call of \<open>ListRepositories\<close> returns the mapping from the
  configured project to the names of the provider's repositories, in the provider's order
  (no entry at all when there is no repository); and when the provider reports no
  repository, the call succeeds with the empty mapping and a nil error.
\<close>

theorem ListRepositories_project_mapping:
  "(ListRepositories sdk client s = Return (repositories, None) \<longrightarrow>
      (\<exists>resp names.
         git_GetRepositories sdk (Project (vcsInfo client)) s = (Some resp, None) \<and>
         map GitRepository.Name resp = map Some names \<and>
         repositories = (if names = [] then Map.empty else [Project (vcsInfo client) \<mapsto> names])))
   \<and> (buildAzureReposClient sdk client s = None \<and>
        git_GetRepositories sdk (Project (vcsInfo client)) s = (Some [], None) \<longrightarrow>
      ListRepositories sdk client s = Return (Map.empty, None))"
proof (intro conjI impI)
  assume ok: "ListRepositories sdk client s = Return (repositories, None)"
  then obtain resp where
    g: "git_GetRepositories sdk (Project (vcsInfo client)) s = (Some resp, None)" and
    l: "ListRepositories_loop (Project (vcsInfo client)) resp Map.empty = Return repositories"
    by (auto simp: ListRepositories_def split: option.splits prod.splits outcome.splits)
  from ListRepositories_loop_Return_names [OF l] obtain names
    where n: "map GitRepository.Name resp = map Some names" ..
  from ListRepositories_loop_names [OF n, of "Project (vcsInfo client)" Map.empty] l
  have "repositories = (if names = [] then Map.empty else [Project (vcsInfo client) \<mapsto> names])"
    by (simp split: if_splits)
  with g n show "\<exists>resp names.
         git_GetRepositories sdk (Project (vcsInfo client)) s = (Some resp, None) \<and>
         map GitRepository.Name resp = map Some names \<and>
         repositories = (if names = [] then Map.empty else [Project (vcsInfo client) \<mapsto> names])"
    by blast
next
  assume "buildAzureReposClient sdk client s = None \<and>
        git_GetRepositories sdk (Project (vcsInfo client)) s = (Some [], None)"
  then show "ListRepositories sdk client s = Return (Map.empty, None)"
    by (simp add: ListRepositories_def)
qed

theorem ListRepositories_project_mapping_witness:
  "ListRepositories example_sdk example_client [] = Return ([''proj'' \<mapsto> [''alpha'', ''beta'']], None)
   \<and> (\<exists>resp names.
         git_GetRepositories example_sdk (Project (vcsInfo example_client)) [] = (Some resp, None) \<and>
         map GitRepository.Name resp = map Some names \<and>
         [''proj'' \<mapsto> [''alpha'', ''beta'']] =
            (if names = [] then Map.empty else [Project (vcsInfo example_client) \<mapsto> names]))
   \<and> buildAzureReposClient empty_sdk example_client [] = None
   \<and> git_GetRepositories empty_sdk (Project (vcsInfo example_client)) [] = (Some [], None)
   \<and> ListRepositories empty_sdk example_client [] = Return (Map.empty, None)"
proof -
  have a: "ListRepositories example_sdk example_client [] =
             Return ([''proj'' \<mapsto> [''alpha'', ''beta'']], None)"
    by (simp add: ListRepositories_def example_buildAzureReposClient)
      (simp add: example_sdk_def example_client_def)
  have c: "git_GetRepositories empty_sdk (Project (vcsInfo example_client)) [] = (Some [], None)"
    by (simp add: empty_sdk_def)
  from ListRepositories_project_mapping
         [of example_sdk example_client "[]" "[''proj'' \<mapsto> [''alpha'', ''beta'']]"]
    ListRepositories_project_mapping [of empty_sdk example_client "[]"]
    a c example_buildAzureReposClient(2) [of "[]"]
  show ?thesis by blast
qed

subsection \<open>GetLatestCommit\<close>

lemma GetLatestCommit_empty:
  "buildAzureReposClient sdk client s = None \<Longrightarrow>
   git_GetCommits sdk repository (Project (vcsInfo client)) branch GitVersionTypeValues_Branch s
     = (Some [], None) \<Longrightarrow>
   GetLatestCommit sdk client owner repository branch s = Return (CommitInfo_zero, None)"
  by (simp add: GetLatestCommit_def)

lemma GetLatestCommit_head:
  "buildAzureReposClient sdk client s = None \<Longrightarrow>
   git_GetCommits sdk repository (Project (vcsInfo client)) branch GitVersionTypeValues_Branch s
     = (Some (latestCommit # older), None) \<Longrightarrow>
   GetLatestCommit sdk client owner repository branch s =
     (case latestCommit_CommitInfo latestCommit of
        Panic \<Rightarrow> Panic
      | Return info \<Rightarrow> Return (info, None))"
  by (simp add: GetLatestCommit_def)

lemma example_GetLatestCommit:
  "GetLatestCommit example_sdk example_client ''org'' ''repo'' ''main'' [] =
     Return (\<lparr>Hash = ''c0ffee'', AuthorName = ''Ann'', CommitterName = ''Bob'',
              CommitInfo.Url = ''https://dev.azure.com/org/proj/_git/repo/commit/c0ffee'',
              Timestamp = 2000, Message = ''fix'', ParentHashes = [''beef'']\<rparr>, None)"
  by (simp add: GetLatestCommit_def example_buildAzureReposClient)
    (simp add: example_sdk_def example_commits_def latestCommit_CommitInfo_def DefaultIfNotNil_def)

lemma example_git_GetCommits:
  "git_GetCommits example_sdk ''repo'' (Project (vcsInfo example_client)) ''main''
     GitVersionTypeValues_Branch [] = (Some (hd example_commits # tl example_commits), None)"
  "git_GetCommits empty_sdk ''repo'' (Project (vcsInfo example_client)) ''main''
     GitVersionTypeValues_Branch [] = (Some [], None)"
  by (simp_all add: example_sdk_def empty_sdk_def example_commits_def)

text \<open>
  C5. Once the SDK client is built and the provider returns the commits of the branch,
  \<open>GetLatestCommit\<close> returns the first commit of the list, field by field (a nil field
  becoming the zero value), with a nil error; and for an empty list it returns the
  zero-value \<open>CommitInfo\<close> with a nil error.
\<close>

theorem GetLatestCommit_head_commit:
  assumes "buildAzureReposClient sdk client s = None"
  shows
    "(git_GetCommits sdk repository (Project (vcsInfo client)) branch GitVersionTypeValues_Branch s
        = (Some [], None) \<longrightarrow>
      GetLatestCommit sdk client owner repository branch s = Return (CommitInfo_zero, None))
     \<and> (git_GetCommits sdk repository (Project (vcsInfo client)) branch GitVersionTypeValues_Branch s
          = (Some (latestCommit # older), None) \<and>
        GitCommitRef.Author latestCommit = Some author \<and>
        Committer latestCommit = Some committer \<and>
        Date committer = Some date \<longrightarrow>
      GetLatestCommit sdk client owner repository branch s =
        Return (\<lparr>Hash = DefaultIfNotNil (CommitId latestCommit),
                 AuthorName = DefaultIfNotNil (GitUserDate.Name author),
                 CommitterName = DefaultIfNotNil (GitUserDate.Name committer),
                 CommitInfo.Url = DefaultIfNotNil (GitCommitRef.Url latestCommit),
                 Timestamp = Unix (Time date),
                 Message = DefaultIfNotNil (GitCommitRef.Comment latestCommit),
                 ParentHashes = DefaultIfNotNil (Parents latestCommit)\<rparr>, None))"
  using assms
  by (auto simp: GetLatestCommit_empty GetLatestCommit_head latestCommit_CommitInfo_def)

theorem GetLatestCommit_head_commit_witness:
  "buildAzureReposClient empty_sdk example_client [] = None
   \<and> git_GetCommits empty_sdk ''repo'' (Project (vcsInfo example_client)) ''main''
        GitVersionTypeValues_Branch [] = (Some [], None)
   \<and> GetLatestCommit empty_sdk example_client ''org'' ''repo'' ''main'' []
        = Return (CommitInfo_zero, None)
   \<and> buildAzureReposClient example_sdk example_client [] = None
   \<and> git_GetCommits example_sdk ''repo'' (Project (vcsInfo example_client)) ''main''
        GitVersionTypeValues_Branch [] = (Some (hd example_commits # tl example_commits), None)
   \<and> GitCommitRef.Author (hd example_commits)
        = Some \<lparr>GitUserDate.Name = Some ''Ann'', Date = Some \<lparr>Time = time_Time 1000 0\<rparr>\<rparr>
   \<and> Committer (hd example_commits)
        = Some \<lparr>GitUserDate.Name = Some ''Bob'', Date = Some \<lparr>Time = time_Time 2000 0\<rparr>\<rparr>
   \<and> GetLatestCommit example_sdk example_client ''org'' ''repo'' ''main'' [] =
        Return (\<lparr>Hash = ''c0ffee'', AuthorName = ''Ann'', CommitterName = ''Bob'',
                 CommitInfo.Url = ''https://dev.azure.com/org/proj/_git/repo/commit/c0ffee'',
                 Timestamp = 2000, Message = ''fix'', ParentHashes = [''beef'']\<rparr>, None)"
proof -
  have a: "GitCommitRef.Author (hd example_commits)
        = Some \<lparr>GitUserDate.Name = Some ''Ann'', Date = Some \<lparr>Time = time_Time 1000 0\<rparr>\<rparr>"
    and c: "Committer (hd example_commits)
        = Some \<lparr>GitUserDate.Name = Some ''Bob'', Date = Some \<lparr>Time = time_Time 2000 0\<rparr>\<rparr>"
    by (simp_all add: example_commits_def)
  have d: "Date \<lparr>GitUserDate.Name = Some ''Bob'', Date = Some \<lparr>Time = time_Time 2000 0\<rparr>\<rparr>
             = Some \<lparr>Time = time_Time 2000 0\<rparr>"
    by simp
  have h: "DefaultIfNotNil (CommitId (hd example_commits)) = ''c0ffee''"
    "DefaultIfNotNil (GitCommitRef.Url (hd example_commits))
       = ''https://dev.azure.com/org/proj/_git/repo/commit/c0ffee''"
    "DefaultIfNotNil (GitCommitRef.Comment (hd example_commits)) = ''fix''"
    "DefaultIfNotNil (Parents (hd example_commits)) = [''beef'']"
    by (simp_all add: example_commits_def DefaultIfNotNil_def)
  from GetLatestCommit_head_commit [where sdk = empty_sdk and client = example_client
      and s = "[]" and repository = "''repo''" and branch = "''main''" and owner = "''org''"]
    example_git_GetCommits(2) example_buildAzureReposClient(2) [of "[]"]
  have e: "GetLatestCommit empty_sdk example_client ''org'' ''repo'' ''main'' []
        = Return (CommitInfo_zero, None)"
    by simp
  from GetLatestCommit_head_commit [where sdk = example_sdk and client = example_client
      and s = "[]" and repository = "''repo''" and branch = "''main''" and owner = "''org''"
      and latestCommit = "hd example_commits" and older = "tl example_commits"
      and author = "\<lparr>GitUserDate.Name = Some ''Ann'', Date = Some \<lparr>Time = time_Time 1000 0\<rparr>\<rparr>"
      and committer = "\<lparr>GitUserDate.Name = Some ''Bob'', Date = Some \<lparr>Time = time_Time 2000 0\<rparr>\<rparr>"
      and date = "\<lparr>Time = time_Time 2000 0\<rparr>"]
    example_git_GetCommits(1) example_buildAzureReposClient(1) [of "[]"] a c d h
  have f: "GetLatestCommit example_sdk example_client ''org'' ''repo'' ''main'' [] =
        Return (\<lparr>Hash = ''c0ffee'', AuthorName = ''Ann'', CommitterName = ''Bob'',
                 CommitInfo.Url = ''https://dev.azure.com/org/proj/_git/repo/commit/c0ffee'',
                 Timestamp = 2000, Message = ''fix'', ParentHashes = [''beef'']\<rparr>, None)"
    by (simp add: DefaultIfNotNil_def)
  from e f a c example_git_GetCommits example_buildAzureReposClient(1,2) [of "[]"]
  show ?thesis by simp
qed

text \<open>
  C6. Whenever \<open>GetLatestCommit\<close> succeeds on a non-empty list of commits, the
  \<open>Timestamp\<close> it returns is the Unix time of the date of the first commit's committer,
  whatever the date of its author.
\<close>

theorem GetLatestCommit_Timestamp_committer:
  assumes "GetLatestCommit sdk client owner repository branch s = Return (info, None)"
    and "git_GetCommits sdk repository (Project (vcsInfo client)) branch GitVersionTypeValues_Branch s
          = (Some (latestCommit # older), None)"
  shows "\<exists>committer date.
           Committer latestCommit = Some committer \<and> Date committer = Some date \<and>
           Timestamp info = Unix (Time date)"
proof -
  from assms have b: "buildAzureReposClient sdk client s = None"
    by (auto simp: GetLatestCommit_def split: option.splits)
  from assms(1) GetLatestCommit_head [OF b assms(2), of owner]
  have "latestCommit_CommitInfo latestCommit = Return info"
    by (simp split: outcome.splits)
  then show ?thesis
    by (auto simp: latestCommit_CommitInfo_def split: option.splits)
qed

theorem GetLatestCommit_Timestamp_committer_witness:
  "GetLatestCommit example_sdk example_client ''org'' ''repo'' ''main'' [] =
     Return (\<lparr>Hash = ''c0ffee'', AuthorName = ''Ann'', CommitterName = ''Bob'',
              CommitInfo.Url = ''https://dev.azure.com/org/proj/_git/repo/commit/c0ffee'',
              Timestamp = 2000, Message = ''fix'', ParentHashes = [''beef'']\<rparr>, None)
   \<and> git_GetCommits example_sdk ''repo'' (Project (vcsInfo example_client)) ''main''
        GitVersionTypeValues_Branch [] = (Some (hd example_commits # tl example_commits), None)
   \<and> (\<exists>committer date.
         Committer (hd example_commits) = Some committer \<and> Date committer = Some date \<and>
         (2000 :: int) = Unix (Time date))"
  using GetLatestCommit_Timestamp_committer [OF example_GetLatestCommit example_git_GetCommits(1)]
    example_GetLatestCommit example_git_GetCommits(1)
  by simp

subsection \<open>ListPullRequestComments\<close>

lemma comment_line_populated:
  "comment_populated comment \<Longrightarrow> \<exists>line. comment_line comment = Return line"
  by (auto simp: comment_populated_def comment_line_def split: option.splits)

lemma commentsAggregator_loop_populated:
  "list_all comment_populated comments \<Longrightarrow>
   \<exists>aggregated. commentsAggregator_loop comments acc = Return aggregated"
proof (induction comments arbitrary: acc)
  case Nil
  then show ?case by simp
next
  case (Cons comment rest)
  from Cons.prems have "comment_populated comment" and r: "list_all comment_populated rest"
    by simp_all
  then obtain line where "comment_line comment = Return line"
    using comment_line_populated by blast
  with Cons.IH [OF r, of "acc @ line"] show ?case by simp
qed

lemma thread_CommentInfo_populated:
  assumes "thread_populated thread"
  shows "\<exists>info. thread_CommentInfo thread = Return info \<and>
           GitPullRequestCommentThread.Id thread = Some (CommentInfo.ID info) \<and>
           map_option Time (PublishedDate thread) = Some (Created info)"
proof -
  from assms obtain comments threadId publishedDate where
    c: "Comments thread = Some comments" and l: "list_all comment_populated comments" and
    i: "GitPullRequestCommentThread.Id thread = Some threadId" and
    p: "PublishedDate thread = Some publishedDate"
    by (auto simp: thread_populated_def split: option.splits)
  from commentsAggregator_loop_populated [OF l, of "[]"] obtain aggregated
    where "commentsAggregator_loop comments [] = Return aggregated" ..
  with c i p show ?thesis
    by (simp add: thread_CommentInfo_def)
qed

lemma ListPullRequestComments_loop_populated:
  "list_all thread_populated threads \<Longrightarrow>
   \<exists>infos. ListPullRequestComments_loop threads acc = Return (acc @ infos) \<and>
     list_all2 (\<lambda>thread info.
        GitPullRequestCommentThread.Id thread = Some (CommentInfo.ID info) \<and>
        map_option Time (PublishedDate thread) = Some (Created info)) threads infos"
proof (induction threads arbitrary: acc)
  case Nil
  then show ?case by simp
next
  case (Cons thread rest)
  from Cons.prems have "thread_populated thread" and r: "list_all thread_populated rest"
    by simp_all
  then obtain info where t: "thread_CommentInfo thread = Return info"
    and f: "GitPullRequestCommentThread.Id thread = Some (CommentInfo.ID info)"
      "map_option Time (PublishedDate thread) = Some (Created info)"
    using thread_CommentInfo_populated by blast
  from Cons.IH [OF r, of "acc @ [info]"] obtain infos where
    l: "ListPullRequestComments_loop rest (acc @ [info]) = Return ((acc @ [info]) @ infos)" and
    a: "list_all2 (\<lambda>thread info.
        GitPullRequestCommentThread.Id thread = Some (CommentInfo.ID info) \<and>
        map_option Time (PublishedDate thread) = Some (Created info)) rest infos"
    by blast
  from t l f a have
    "ListPullRequestComments_loop (thread # rest) acc = Return (acc @ info # infos) \<and>
     list_all2 (\<lambda>thread info.
        GitPullRequestCommentThread.Id thread = Some (CommentInfo.ID info) \<and>
        map_option Time (PublishedDate thread) = Some (Created info)) (thread # rest) (info # infos)"
    by simp
  then show ?case by blast
qed

text \<open>
  Items that correspond to the threads position by position are in the order of the
  threads: the items are oldest first exactly when the threads are, under any ordering
  \<open>older\<close> of times.
\<close>

lemma same_order:
  assumes f: "list_all2 (\<lambda>thread info.
        GitPullRequestCommentThread.Id thread = Some (CommentInfo.ID info) \<and>
        map_option Time (PublishedDate thread) = Some (Created info)) threads infos"
  shows "sorted_wrt (\<lambda>thread thread'. \<forall>d d'.
            PublishedDate thread = Some d \<and> PublishedDate thread' = Some d'
            \<longrightarrow> older (Time d) (Time d')) threads
         \<longleftrightarrow> sorted_wrt (\<lambda>info info'. older (Created info) (Created info')) infos"
proof -
  from f have len: "length threads = length infos" by (rule list_all2_lengthD)
  have d: "\<exists>d. PublishedDate (threads ! i) = Some d \<and> Time d = Created (infos ! i)"
    if "i < length infos" for i
  proof -
    from f that len have "map_option Time (PublishedDate (threads ! i)) = Some (Created (infos ! i))"
      by (simp add: list_all2_conv_all_nth)
    then show ?thesis by auto
  qed
  show ?thesis
  proof
    assume "sorted_wrt (\<lambda>thread thread'. \<forall>d d'.
            PublishedDate thread = Some d \<and> PublishedDate thread' = Some d'
            \<longrightarrow> older (Time d) (Time d')) threads"
    then have o: "PublishedDate (threads ! i) = Some a \<Longrightarrow> PublishedDate (threads ! j) = Some b
        \<Longrightarrow> older (Time a) (Time b)" if "i < j" "j < length threads" for i j a b
      using that unfolding sorted_wrt_iff_nth_less by blast
    show "sorted_wrt (\<lambda>info info'. older (Created info) (Created info')) infos"
      unfolding sorted_wrt_iff_nth_less
    proof (intro allI impI)
      fix i j
      assume ij: "i < j" and j: "j < length infos"
      from d [of i] ij j obtain di where di: "PublishedDate (threads ! i) = Some di"
        "Time di = Created (infos ! i)" by auto
      from d [OF j] obtain dj where dj: "PublishedDate (threads ! j) = Some dj"
        "Time dj = Created (infos ! j)" by auto
      from o [of i j di dj] ij j len di(1) dj(1) have "older (Time di) (Time dj)" by simp
      with di(2) dj(2) show "older (Created (infos ! i)) (Created (infos ! j))" by simp
    qed
  next
    assume "sorted_wrt (\<lambda>info info'. older (Created info) (Created info')) infos"
    then have o: "older (Created (infos ! i)) (Created (infos ! j))"
      if "i < j" "j < length infos" for i j
      using that unfolding sorted_wrt_iff_nth_less by blast
    show "sorted_wrt (\<lambda>thread thread'. \<forall>d d'.
            PublishedDate thread = Some d \<and> PublishedDate thread' = Some d'
            \<longrightarrow> older (Time d) (Time d')) threads"
      unfolding sorted_wrt_iff_nth_less
    proof (intro allI impI)
      fix i j a b
      assume ij: "i < j" and j: "j < length threads"
        and ab: "PublishedDate (threads ! i) = Some a \<and> PublishedDate (threads ! j) = Some b"
      from d [of i] ij j len ab have "Time a = Created (infos ! i)" by auto
      moreover from d [of j] j len ab have "Time b = Created (infos ! j)" by auto
      moreover from o [of i j] ij j len have "older (Created (infos ! i)) (Created (infos ! j))"
        by simp
      ultimately show "older (Time a) (Time b)" by simp
    qed
  qed
qed

lemma example_git_GetThreads:
  "git_GetThreads example_sdk ''repo'' 7 (Project (vcsInfo example_client)) []
     = (Some example_threads, None)"
  "git_GetThreads empty_sdk ''repo'' 7 (Project (vcsInfo example_client)) [] = (Some [], None)"
  by (simp_all add: example_sdk_def empty_sdk_def)

lemma example_ListPullRequestComments:
  "ListPullRequestComments example_sdk example_client ''org'' ''repo'' 7 []
     = Return (example_infos, None)"
  by (simp add: ListPullRequestComments_def example_buildAzureReposClient example_git_GetThreads)
    (simp add: example_threads_def example_comment_def thread_CommentInfo_def
      comment_line_def itoa_def digits.simps example_infos_def)

lemma example_threads_populated: "list_all thread_populated example_threads"
  by (simp add: example_threads_def example_comment_def thread_populated_def comment_populated_def)

text \<open>
  Conversely, a thread or comment that is not populated makes the whole call panic: the
  call returns exactly on populated responses.
\<close>

lemma comment_line_unpopulated:
  "\<not> comment_populated comment \<Longrightarrow> comment_line comment = Panic"
  by (auto simp: comment_populated_def comment_line_def split: option.splits)

lemma commentsAggregator_loop_unpopulated:
  "\<not> list_all comment_populated comments \<Longrightarrow> commentsAggregator_loop comments acc = Panic"
proof (induction comments arbitrary: acc)
  case Nil
  then show ?case by simp
next
  case (Cons comment rest)
  show ?case
  proof (cases "comment_populated comment")
    case True
    with Cons.prems have "\<not> list_all comment_populated rest" by simp
    from Cons.IH [OF this] comment_line_populated [OF True] show ?thesis by auto
  next
    case False
    then show ?thesis by (simp add: comment_line_unpopulated)
  qed
qed

lemma thread_CommentInfo_unpopulated:
  "\<not> thread_populated thread \<Longrightarrow> thread_CommentInfo thread = Panic"
  by (auto simp: thread_populated_def thread_CommentInfo_def commentsAggregator_loop_unpopulated
      split: option.splits outcome.splits)

lemma ListPullRequestComments_loop_unpopulated:
  "\<not> list_all thread_populated threads \<Longrightarrow> ListPullRequestComments_loop threads acc = Panic"
proof (induction threads arbitrary: acc)
  case Nil
  then show ?case by simp
next
  case (Cons thread rest)
  show ?case
  proof (cases "thread_populated thread")
    case True
    with Cons.prems have "\<not> list_all thread_populated rest" by simp
    from Cons.IH [OF this] thread_CommentInfo_populated [OF True] show ?thesis by auto
  next
    case False
    then show ?thesis by (simp add: thread_CommentInfo_unpopulated)
  qed
qed

lemma ListPullRequestComments_unpopulated_panics:
  assumes "buildAzureReposClient sdk client s = None"
    and "git_GetThreads sdk repository pullRequestID (Project (vcsInfo client)) s = (Some threads, None)"
    and "\<not> list_all thread_populated threads"
  shows "ListPullRequestComments sdk client owner repository pullRequestID s = Panic"
  using assms ListPullRequestComments_loop_unpopulated [OF assms(3), of "[]"]
  by (simp add: ListPullRequestComments_def)

text \<open>
  C4. The claim: for every pull request the call returns one \<open>CommentInfo\<close> per thread.
  When a thread holds a deleted comment, whose content is nil, the call evaluates
  \<^verbatim>\<open>*comment.Content\<close> and panics; nothing is returned for any thread.
\<close>

theorem ListPullRequestComments_deleted_comment_panics:
  "ListPullRequestComments deleted_comment_sdk example_client ''org'' ''repo'' 7 [] = Panic"
  by (simp add: ListPullRequestComments_def buildAzureReposClient_def deleted_comment_sdk_def
      example_sdk_def example_client_def deleted_comment_threads_def example_comment_def
      thread_CommentInfo_def comment_line_def itoa_def digits.simps)

text \<open>
  C7, as the claim states it, fails: the backend does not sort. When the provider lists
  the threads \<open>C\<close>, \<open>B\<close>, \<open>A\<close>, newest first, the call returns the items for \<open>C\<close>, \<open>B\<close>, \<open>A\<close>
  in that order, created at 300, 200 and 100.
\<close>

theorem ListPullRequestComments_returns_newest_first:
  "ListPullRequestComments reversed_sdk example_client ''org'' ''repo'' 7 []
     = Return (rev example_infos, None)
   \<and> map (\<lambda>info. Unix (Created info)) (rev example_infos) = [300, 200, 100]
   \<and> map CommentInfo.ID (rev example_infos) = [13, 12, 11]"
  by (simp add: ListPullRequestComments_def buildAzureReposClient_def reversed_sdk_def
      example_sdk_def example_client_def example_threads_def example_comment_def
      thread_CommentInfo_def comment_line_def itoa_def digits.simps example_infos_def)

text \<open>
  C7, amended. Once the SDK client is built and the provider returns the threads of the
  pull request, all of them populated, \<open>ListPullRequestComments\<close> returns, with a nil
  error, one item per thread in exactly the order in which the provider lists the threads,
  each item with its thread's id and published date. So the items are oldest first
  exactly when the provider's list is (under any ordering \<open>older\<close> of times), and when
  the provider lists no thread the call returns the empty sequence with a nil error.
\<close>

theorem ListPullRequestComments_provider_order:
  assumes "buildAzureReposClient sdk client s = None"
    and "git_GetThreads sdk repository pullRequestID (Project (vcsInfo client)) s = (Some threads, None)"
    and "list_all thread_populated threads"
  shows
    "\<exists>infos.
       ListPullRequestComments sdk client owner repository pullRequestID s = Return (infos, None)
       \<and> list_all2 (\<lambda>thread info.
            GitPullRequestCommentThread.Id thread = Some (CommentInfo.ID info) \<and>
            map_option Time (PublishedDate thread) = Some (Created info)) threads infos
       \<and> (sorted_wrt (\<lambda>thread thread'. \<forall>d d'.
              PublishedDate thread = Some d \<and> PublishedDate thread' = Some d'
              \<longrightarrow> older (Time d) (Time d')) threads
            \<longleftrightarrow> sorted_wrt (\<lambda>info info'. older (Created info) (Created info')) infos)
       \<and> (threads = [] \<longrightarrow> infos = [])"
proof -
  from ListPullRequestComments_loop_populated [OF assms(3), of "[]"] obtain infos where
    l: "ListPullRequestComments_loop threads [] = Return infos" and
    f: "list_all2 (\<lambda>thread info.
          GitPullRequestCommentThread.Id thread = Some (CommentInfo.ID info) \<and>
          map_option Time (PublishedDate thread) = Some (Created info)) threads infos"
    by auto
  from assms(1,2) l
  have r: "ListPullRequestComments sdk client owner repository pullRequestID s = Return (infos, None)"
    by (simp add: ListPullRequestComments_def)
  from f have e: "threads = [] \<longrightarrow> infos = []" by auto
  from r f same_order [OF f, of older] e show ?thesis by blast
qed

theorem ListPullRequestComments_provider_order_witness:
  "buildAzureReposClient example_sdk example_client [] = None
   \<and> git_GetThreads example_sdk ''repo'' 7 (Project (vcsInfo example_client)) []
       = (Some example_threads, None)
   \<and> list_all thread_populated example_threads
   \<and> ListPullRequestComments example_sdk example_client ''org'' ''repo'' 7 []
       = Return (example_infos, None)
   \<and> map GitPullRequestCommentThread.Id example_threads = [Some 11, Some 12, Some 13]
   \<and> map CommentInfo.ID example_infos = [11, 12, 13]
   \<and> (\<exists>infos.
         ListPullRequestComments example_sdk example_client ''org'' ''repo'' 7 [] = Return (infos, None)
         \<and> list_all2 (\<lambda>thread info.
              GitPullRequestCommentThread.Id thread = Some (CommentInfo.ID info) \<and>
              map_option Time (PublishedDate thread) = Some (Created info)) example_threads infos
         \<and> (sorted_wrt (\<lambda>thread thread'. \<forall>d d'.
                PublishedDate thread = Some d \<and> PublishedDate thread' = Some d'
                \<longrightarrow> Unix (Time d) \<le> Unix (Time d')) example_threads
              \<longleftrightarrow> sorted_wrt (\<lambda>info info'. Unix (Created info) \<le> Unix (Created info')) infos)
         \<and> (example_threads = [] \<longrightarrow> infos = []))
   \<and> buildAzureReposClient empty_sdk example_client [] = None
   \<and> git_GetThreads empty_sdk ''repo'' 7 (Project (vcsInfo example_client)) [] = (Some [], None)
   \<and> list_all thread_populated []
   \<and> ListPullRequestComments empty_sdk example_client ''org'' ''repo'' 7 [] = Return ([], None)"
proof -
  have i: "map GitPullRequestCommentThread.Id example_threads = [Some 11, Some 12, Some 13]"
    "map CommentInfo.ID example_infos = [11, 12, 13]"
    by (simp_all add: example_threads_def example_infos_def)
  note n = ListPullRequestComments_provider_order
      [where sdk = example_sdk and client = example_client and s = "[]" and repository = "''repo''"
         and pullRequestID = 7 and threads = example_threads and owner = "''org''"
         and older = "\<lambda>t t'. Unix t \<le> Unix t'",
       OF example_buildAzureReposClient(1) example_git_GetThreads(1) example_threads_populated]
  have "list_all thread_populated []" by simp
  from ListPullRequestComments_provider_order
      [where sdk = empty_sdk and client = example_client and s = "[]" and repository = "''repo''"
         and pullRequestID = 7 and threads = "[]" and owner = "''org''",
       OF example_buildAzureReposClient(2) example_git_GetThreads(2) this]
  have e: "ListPullRequestComments empty_sdk example_client ''org'' ''repo'' 7 [] = Return ([], None)"
    by auto
  from n e i example_ListPullRequestComments example_buildAzureReposClient(1,2) [of "[]"]
    example_git_GetThreads example_threads_populated
  show ?thesis by simp
qed

subsection \<open>CreatePullRequest\<close>

text \<open>
  C8, as the claim states it, fails: the backend checks nothing itself. When the provider
  accepts a request whose source and target are the same branch, the call succeeds with
  a nil error; when the provider refuses it, the call returns the provider's own error.
\<close>

theorem CreatePullRequest_identical_branches_succeeds:
  "CreatePullRequest example_sdk example_AddBranchPrefix example_client
     ''org'' ''repo'' ''main'' ''main'' ''title'' ''text'' []
   = (Return None,
      [\<lparr>PullRequestId = None, SourceRefName = Some ''refs/heads/main'',
        TargetRefName = Some ''refs/heads/main'', Title = Some ''title'',
        Description = Some ''text''\<rparr>])
   \<and> CreatePullRequest strict_sdk example_AddBranchPrefix example_client
     ''org'' ''repo'' ''main'' ''main'' ''title'' ''text'' []
   = (Return (Some (Native ''400 Bad Request'')), [])"
  by (simp add: CreatePullRequest_def GitPullRequestToCreate_def buildAzureReposClient_def
      example_sdk_def strict_sdk_def example_client_def example_AddBranchPrefix_def)

text \<open>
  C8, amended. Once the SDK client is built, \<open>CreatePullRequest\<close> sends the provider one
  create request, with both branch names passed through \<^verbatim>\<open>AddBranchPrefix\<close> and nothing
  else checked, and returns exactly the provider's error: nil when the provider accepts
  the request, the provider's own error when it rejects it (as it may for malformed or
  identical branches). On success nothing but the nil error is returned. A repeated
  identical call sends the provider the same request once more.
\<close>

theorem CreatePullRequest_forwards_to_provider:
  assumes "buildAzureReposClient sdk client s = None"
  shows
    "fst (CreatePullRequest sdk AddBranchPrefix client owner repository sourceBranch targetBranch
            title description s)
       = Return (snd (fst (git_CreatePullRequest sdk
            (GitPullRequestToCreate AddBranchPrefix sourceBranch targetBranch title description)
            repository (Project (vcsInfo client)) s)))
     \<and> snd (CreatePullRequest sdk AddBranchPrefix client owner repository sourceBranch targetBranch
            title description s)
       = snd (git_CreatePullRequest sdk
            (GitPullRequestToCreate AddBranchPrefix sourceBranch targetBranch title description)
            repository (Project (vcsInfo client)) s)
     \<and> SourceRefName (GitPullRequestToCreate AddBranchPrefix sourceBranch targetBranch title description)
         = Some (AddBranchPrefix sourceBranch)
     \<and> TargetRefName (GitPullRequestToCreate AddBranchPrefix sourceBranch targetBranch title description)
         = Some (AddBranchPrefix targetBranch)
     \<and> (buildAzureReposClient sdk client
            (snd (git_CreatePullRequest sdk
               (GitPullRequestToCreate AddBranchPrefix sourceBranch targetBranch title description)
               repository (Project (vcsInfo client)) s)) = None \<longrightarrow>
          snd (CreatePullRequest sdk AddBranchPrefix client owner repository sourceBranch targetBranch
                 title description
                 (snd (CreatePullRequest sdk AddBranchPrefix client owner repository sourceBranch
                         targetBranch title description s)))
          = snd (git_CreatePullRequest sdk
                  (GitPullRequestToCreate AddBranchPrefix sourceBranch targetBranch title description)
                  repository (Project (vcsInfo client))
                  (snd (git_CreatePullRequest sdk
                     (GitPullRequestToCreate AddBranchPrefix sourceBranch targetBranch title description)
                     repository (Project (vcsInfo client)) s))))"
  using assms
  by (simp add: CreatePullRequest_def GitPullRequestToCreate_def split: prod.splits)

theorem CreatePullRequest_forwards_to_provider_witness:
  "buildAzureReposClient example_sdk example_client [] = None
   \<and> fst (CreatePullRequest example_sdk example_AddBranchPrefix example_client ''org'' ''repo''
            ''dev'' ''main'' ''title'' ''text'' []) = Return None
   \<and> buildAzureReposClient example_sdk example_client
        [GitPullRequestToCreate example_AddBranchPrefix ''dev'' ''main'' ''title'' ''text''] = None
   \<and> snd (CreatePullRequest example_sdk example_AddBranchPrefix example_client ''org'' ''repo''
            ''dev'' ''main'' ''title'' ''text''
            (snd (CreatePullRequest example_sdk example_AddBranchPrefix example_client ''org'' ''repo''
                    ''dev'' ''main'' ''title'' ''text'' [])))
       = [GitPullRequestToCreate example_AddBranchPrefix ''dev'' ''main'' ''title'' ''text'',
          GitPullRequestToCreate example_AddBranchPrefix ''dev'' ''main'' ''title'' ''text'']"
proof -
  have p: "git_CreatePullRequest example_sdk pullRequest repository project s
             = ((Some pullRequest, None), s @ [pullRequest])" for pullRequest repository project s
    by (simp add: example_sdk_def)
  note w = CreatePullRequest_forwards_to_provider
      [where sdk = example_sdk and client = example_client and s = "[]"
         and AddBranchPrefix = example_AddBranchPrefix and owner = "''org''"
         and repository = "''repo''" and sourceBranch = "''dev''" and targetBranch = "''main''"
         and title = "''title''" and description = "''text''",
       OF example_buildAzureReposClient(1)]
  from w [THEN conjunct1]
  have a: "fst (CreatePullRequest example_sdk example_AddBranchPrefix example_client ''org'' ''repo''
                  ''dev'' ''main'' ''title'' ''text'' []) = Return None"
    by (simp add: p)
  from w [THEN conjunct2, THEN conjunct2, THEN conjunct2, THEN conjunct2]
  have c: "snd (CreatePullRequest example_sdk example_AddBranchPrefix example_client ''org'' ''repo''
            ''dev'' ''main'' ''title'' ''text''
            (snd (CreatePullRequest example_sdk example_AddBranchPrefix example_client ''org'' ''repo''
                    ''dev'' ''main'' ''title'' ''text'' [])))
       = [GitPullRequestToCreate example_AddBranchPrefix ''dev'' ''main'' ''title'' ''text'',
          GitPullRequestToCreate example_AddBranchPrefix ''dev'' ''main'' ''title'' ''text'']"
    by (simp add: p example_buildAzureReposClient(1))
  from a c example_buildAzureReposClient(1)
  show ?thesis by simp
qed

subsection \<open>The owner argument\<close>

text \<open>
  C10. No operation that takes an owner looks at it: two calls that differ only in the
  owner give the same outcome (results, error, working directory and provider state).
\<close>

theorem owner_ignored:
  "ListBranches sdk client owner repository s = ListBranches sdk client owner' repository s
   \<and> DownloadRepository e client owner repository branch localPath cwd
       = DownloadRepository e client owner' repository branch localPath cwd
   \<and> CreatePullRequest sdk AddBranchPrefix client owner repository sourceBranch targetBranch
         title description s
       = CreatePullRequest sdk AddBranchPrefix client owner' repository sourceBranch targetBranch
         title description s
   \<and> AddPullRequestComment sdk client owner repository content pullRequestID s
       = AddPullRequestComment sdk client owner' repository content pullRequestID s
   \<and> ListPullRequestComments sdk client owner repository pullRequestID s
       = ListPullRequestComments sdk client owner' repository pullRequestID s
   \<and> ListOpenPullRequests sdk client owner repository s
       = ListOpenPullRequests sdk client owner' repository s
   \<and> GetLatestCommit sdk client owner repository branch s
       = GetLatestCommit sdk client owner' repository branch s
   \<and> AddSshKeyToRepository client owner repository keyName publicKey permission
       = AddSshKeyToRepository client owner' repository keyName publicKey permission
   \<and> GetRepositoryInfo client owner repository = GetRepositoryInfo client owner' repository
   \<and> GetCommitBySha client owner repository sha = GetCommitBySha client owner' repository sha
   \<and> CreateLabel client owner repository labelInfo = CreateLabel client owner' repository labelInfo
   \<and> (GetLabel client owner repository name :: ('labelInfo option \<times> error option) outcome)
       = GetLabel client owner' repository name
   \<and> ListPullRequestLabels client owner repository pullRequestID
       = ListPullRequestLabels client owner' repository pullRequestID
   \<and> UnlabelPullRequest client owner repository name pullRequestID
       = UnlabelPullRequest client owner' repository name pullRequestID
   \<and> UploadCodeScanning client owner repository branch scanResults
       = UploadCodeScanning client owner' repository branch scanResults
   \<and> CreateWebhook client owner repository branch payloadURL webhookEvents
       = CreateWebhook client owner' repository branch payloadURL webhookEvents
   \<and> UpdateWebhook client owner repository branch payloadURL token webhookID webhookEvents
       = UpdateWebhook client owner' repository branch payloadURL token webhookID webhookEvents
   \<and> DeleteWebhook client owner repository webhookID = DeleteWebhook client owner' repository webhookID
   \<and> SetCommitStatus client commitStatus owner repository ref title description detailsURL
       = SetCommitStatus client commitStatus owner' repository ref title description detailsURL"
  by (simp add: ListBranches_def DownloadRepository_def CreatePullRequest_def
      AddPullRequestComment_def ListPullRequestComments_def ListOpenPullRequests_def
      GetLatestCommit_def AddSshKeyToRepository_def GetRepositoryInfo_def GetCommitBySha_def
      CreateLabel_def GetLabel_def ListPullRequestLabels_def UnlabelPullRequest_def
      UploadCodeScanning_def CreateWebhook_def UpdateWebhook_def DeleteWebhook_def
      SetCommitStatus_def)

end
